theory Spec2Isabelle
  imports Main
begin

section \<open>The Soroswap node: per-item operation dispatcher\<close>

text \<open>
  A shallow embedding of \<^verbatim>\<open>Soroswap.execute\<close>
  (\<^verbatim>\<open>src/nodes/Soroswap/Soroswap.node.ts\<close>, lines 445-608).

  Strings are \<^typ>\<open>string\<close>: a character stands for one code unit below 256
  (the ASCII and Latin-1 range). The node reads every parameter through a TypeScript
  cast (\<^verbatim>\<open>as string\<close>, \<^verbatim>\<open>as string[]\<close>, \<^verbatim>\<open>as boolean\<close>); the model gives
  each parameter the type of its cast.
\<close>

subsection \<open>The language built-ins the dispatcher calls\<close>

text \<open>
  \<^verbatim>\<open>String.prototype.trim\<close> and \<^verbatim>\<open>BigInt(string)\<close> strip the characters of
  WhiteSpace and LineTerminator: TAB, LF, VT, FF, CR, SP and NBSP are the ones below 256.
\<close>

definition isWhiteSpace :: "char \<Rightarrow> bool" where
  "isWhiteSpace c \<longleftrightarrow> (of_char c :: nat) \<in> {9, 10, 11, 12, 13, 32, 160}"

definition trim :: "string \<Rightarrow> string" where
  "trim s = rev (dropWhile isWhiteSpace (rev (dropWhile isWhiteSpace s)))"

text \<open>
  \<^verbatim>\<open>String.prototype.toLowerCase\<close>: A-Z and the Latin-1 capitals
  (192-222 without the multiplication sign 215) move up by 32.
\<close>

definition lowerChar :: "char \<Rightarrow> char" where
  "lowerChar c =
     (let n = (of_char c :: nat)
      in if (65 \<le> n \<and> n \<le> 90) \<or> (192 \<le> n \<and> n \<le> 222 \<and> n \<noteq> 215)
         then char_of (n + 32) else c)"

definition toLowerCase :: "string \<Rightarrow> string" where
  "toLowerCase s = map lowerChar s"

text \<open>
  \<^verbatim>\<open>s.split(',')\<close> with a one-character separator: the segments between the
  separators, in order. The result is never empty: \<^verbatim>\<open>''.split(',')\<close> is \<^verbatim>\<open>['']\<close>.
\<close>

fun split :: "char \<Rightarrow> string \<Rightarrow> string list" where
  "split sep [] = [[]]"
| "split sep (c # cs) =
     (if c = sep then [] # split sep cs
      else (case split sep cs of
              [] \<Rightarrow> [[c]]
            | seg # segs \<Rightarrow> (c # seg) # segs))"

text \<open>
  \<^verbatim>\<open>BigInt(string)\<close> is StringToBigInt of ECMA-262: the string is stripped of
  white space on both sides; the empty rest is 0; otherwise the rest is decimal digits
  with an optional sign, or an unsigned binary, octal or hexadecimal literal
  (\<^verbatim>\<open>0b\<close>, \<^verbatim>\<open>0o\<close>, \<^verbatim>\<open>0x\<close>, either case). Anything else throws a SyntaxError,
  whose message on Node.js is \<^verbatim>\<open>Cannot convert <string> to a BigInt\<close>.
\<close>

definition digitValue :: "char \<Rightarrow> nat option" where
  "digitValue c =
     (let n = (of_char c :: nat)
      in if 48 \<le> n \<and> n \<le> 57 then Some (n - 48)
         else if 97 \<le> n \<and> n \<le> 102 then Some (n - 87)
         else if 65 \<le> n \<and> n \<le> 70 then Some (n - 55)
         else None)"

fun parseDigits :: "nat \<Rightarrow> nat \<Rightarrow> string \<Rightarrow> nat option" where
  "parseDigits radix acc [] = Some acc"
| "parseDigits radix acc (c # cs) =
     (case digitValue c of
        None \<Rightarrow> None
      | Some d \<Rightarrow> if d < radix then parseDigits radix (acc * radix + d) cs else None)"

text \<open>One or more digits of the radix.\<close>

definition parseNumeral :: "nat \<Rightarrow> string \<Rightarrow> int option" where
  "parseNumeral radix ds =
     (if ds = [] then None else map_option int (parseDigits radix 0 ds))"

fun StringToBigInt :: "string \<Rightarrow> int option" where
  "StringToBigInt [] = Some 0"
| "StringToBigInt (c # cs) =
     (if c = CHR ''+'' then parseNumeral 10 cs
      else if c = CHR ''-'' then map_option uminus (parseNumeral 10 cs)
      else if c = CHR ''0'' \<and> cs \<noteq> [] \<and> hd cs \<in> {CHR ''b'', CHR ''B''} then parseNumeral 2 (tl cs)
      else if c = CHR ''0'' \<and> cs \<noteq> [] \<and> hd cs \<in> {CHR ''o'', CHR ''O''} then parseNumeral 8 (tl cs)
      else if c = CHR ''0'' \<and> cs \<noteq> [] \<and> hd cs \<in> {CHR ''x'', CHR ''X''} then parseNumeral 16 (tl cs)
      else parseNumeral 10 (c # cs))"

text \<open>
  The value a remote call rejects with: an instance of \<^verbatim>\<open>Error\<close> or another object,
  with its \<^verbatim>\<open>message\<close> property.
\<close>

datatype rejection = ErrorInstance string | PlainObject string

fun rejectionMessage :: "rejection \<Rightarrow> string" where
  "rejectionMessage (ErrorInstance m) = m"
| "rejectionMessage (PlainObject m) = m"

text \<open>
  What the \<^verbatim>\<open>try\<close> block can throw: the SyntaxError of \<^verbatim>\<open>BigInt\<close>, with its
  message; a NodeOperationError object, with the message and the item index it ends up
  with; the rejection of a remote call. \<^verbatim>\<open>NodeOperationError\<close> is the finished
  object: the message its constructor computes from its argument is a parameter of the
  model (see \<open>libraries\<close> below). \<open>message\<close> reads the \<^verbatim>\<open>message\<close> property.
\<close>

datatype js_error =
    SyntaxError string
  | NodeOperationError string nat
  | SdkError rejection

fun message :: "js_error \<Rightarrow> string" where
  "message (SyntaxError m) = m"
| "message (NodeOperationError m i) = m"
| "message (SdkError r) = rejectionMessage r"

definition BigInt :: "string \<Rightarrow> js_error + int" where
  "BigInt s =
     (case StringToBigInt (trim s) of
        None \<Rightarrow> Inl (SyntaxError (''Cannot convert '' @ s @ '' to a BigInt''))
      | Some v \<Rightarrow> Inr v)"


subsection \<open>Values crossing the node's boundary\<close>

text \<open>
  A JSON value: the \<^verbatim>\<open>quote\<close> parameter of the build operation, the payload a remote
  call resolves to, and a member of an enum object of the client library.
\<close>

datatype json =
    JNull
  | JBool bool
  | JNum int
  | JStr string
  | JArr "json list"
  | JObj "(string \<times> json) list"

text \<open>
  The parameters \<^verbatim>\<open>this.getNodeParameter(name, itemIndex)\<close> returns for one item
  index, one field for each name the node reads, with the type of the cast at the read.
  The enum-like parameters (\<^verbatim>\<open>network\<close>, \<^verbatim>\<open>tradeType\<close>, \<^verbatim>\<open>contractName\<close>,
  \<^verbatim>\<open>assetListName\<close>, \<^verbatim>\<open>protocols\<close>) are strings at run time; their casts to a
  union of literals check nothing. The host is taken to return a value for every name
  and index, as its contract says; \<^verbatim>\<open>from\<close> and \<^verbatim>\<open>to\<close> are the parameters
  \<^verbatim>\<open>from_address\<close> and \<^verbatim>\<open>to_address\<close> here.
\<close>

record node_parameters =
  operation :: string
  network :: string
  assetIn :: string
  assetOut :: string
  amount :: string
  tradeType :: string
  protocols :: "string list"
  quote :: json
  from_address :: string
  to_address :: string
  xdr :: string
  launchtube :: bool
  assetA :: string
  assetB :: string
  amountA :: string
  amountB :: string
  liquidity :: string
  address :: string
  assetListName :: string
  assets :: string
  contractName :: string

text \<open>
  The enums of \<^verbatim>\<open>@soroswap/sdk\<close>. The node names the members of
  \<^verbatim>\<open>SupportedNetworks\<close> and \<^verbatim>\<open>TradeType\<close> directly; it indexes the objects
  \<^verbatim>\<open>SupportedProtocols\<close> and \<^verbatim>\<open>SupportedAssetLists\<close> with a string. That is a
  property lookup: it yields the value of the member of that name, or a property the
  object inherits (\<^verbatim>\<open>constructor\<close>, \<^verbatim>\<open>toString\<close>, ...), or \<^verbatim>\<open>undefined\<close>
  (\<^const>\<open>None\<close>).
\<close>

datatype SupportedNetworks = MAINNET | TESTNET

datatype TradeType = EXACT_IN | EXACT_OUT

datatype property = Member json | Inherited string

text \<open>
  The libraries are not part of the repository, so what the node takes from them is a
  parameter of the model: the two property lookups of \<^verbatim>\<open>@soroswap/sdk\<close>, and the
  message that the constructor of \<^verbatim>\<open>NodeOperationError\<close> in \<^verbatim>\<open>n8n-workflow\<close> gives
  the object it builds, from a string (line 582) and from a caught error (line 600).
  The constructor need not keep the message it is given.
\<close>

record libraries =
  SupportedProtocols :: "string \<rightharpoonup> property"
  SupportedAssetLists :: "string \<rightharpoonup> property"
  messageOfString :: "string \<Rightarrow> string"
  messageOfError :: "js_error \<Rightarrow> string"

text \<open>The remote calls of the client, with the arguments the node passes.\<close>

record QuoteRequest =
  q_assetIn :: string
  q_assetOut :: string
  q_amount :: int
  q_tradeType :: TradeType
  q_protocols :: "property option list"

record BuildQuoteRequest =
  b_quote :: json
  b_from :: "string option"
  b_to :: "string option"

record AddLiquidityRequest =
  al_assetA :: string
  al_assetB :: string
  al_amountA :: int
  al_amountB :: int
  al_to :: string

record RemoveLiquidityRequest =
  rl_assetA :: string
  rl_assetB :: string
  rl_liquidity :: int
  rl_amountA :: int
  rl_amountB :: int
  rl_to :: string

datatype price_assets = SingleAsset string | AssetArray "string list"

datatype sdk_call =
    GetProtocols SupportedNetworks
  | Quote QuoteRequest SupportedNetworks
  | Build BuildQuoteRequest SupportedNetworks
  | Send string bool SupportedNetworks
  | GetPools SupportedNetworks "string list"
  | GetPoolByTokens string string SupportedNetworks "string list"
  | AddLiquidity AddLiquidityRequest SupportedNetworks
  | RemoveLiquidity RemoveLiquidityRequest SupportedNetworks
  | GetUserPositions string SupportedNetworks
  | GetAssetList "property option"
  | GetPrice price_assets SupportedNetworks
  | GetContractAddress SupportedNetworks string

text \<open>
  The client is outside the repository. A call changes the state \<^typ>\<open>'w\<close> of the
  world (the remote system, the network) and either rejects (\<^const>\<open>Inl\<close>) or
  resolves to a payload.
\<close>

type_synonym 'w SoroswapSDK = "sdk_call \<Rightarrow> 'w \<Rightarrow> (rejection + json) \<times> 'w"


subsection \<open>The coercion of one item's parameters into a remote call\<close>

text \<open>
  The body of the \<^verbatim>\<open>try\<close> block up to the remote call (lines 460-585): the
  operation and the network are read, then the \<^verbatim>\<open>switch\<close> reads and coerces the
  parameters of the operation. \<^const>\<open>Inl\<close> is the exception thrown before any remote
  call is made: the SyntaxError of \<^verbatim>\<open>BigInt\<close>, or the NodeOperationError of the
  \<^verbatim>\<open>default\<close> branch. \<^verbatim>\<open>from || undefined\<close> turns the empty string into
  \<^verbatim>\<open>undefined\<close>.
\<close>

definition request :: "libraries \<Rightarrow> node_parameters \<Rightarrow> nat \<Rightarrow> js_error + sdk_call" where
  "request E p itemIndex =
     (let net = (if network p = ''MAINNET'' then MAINNET else TESTNET) in
      if operation p = ''getProtocols'' then
        Inr (GetProtocols net)
      else if operation p = ''quote'' then
        (let tt = (if tradeType p = ''EXACT_IN'' then EXACT_IN else EXACT_OUT);
             ps = map (SupportedProtocols E) (protocols p)
         in case BigInt (amount p) of
              Inl e \<Rightarrow> Inl e
            | Inr a \<Rightarrow>
                Inr (Quote \<lparr>q_assetIn = assetIn p, q_assetOut = assetOut p, q_amount = a,
                            q_tradeType = tt, q_protocols = ps\<rparr> net))
      else if operation p = ''build'' then
        Inr (Build \<lparr>b_quote = quote p,
                    b_from = (if from_address p = [] then None else Some (from_address p)),
                    b_to = (if to_address p = [] then None else Some (to_address p))\<rparr> net)
      else if operation p = ''send'' then
        Inr (Send (xdr p) (launchtube p) net)
      else if operation p = ''getPools'' then
        Inr (GetPools net (map toLowerCase (protocols p)))
      else if operation p = ''getPoolByTokens'' then
        Inr (GetPoolByTokens (assetA p) (assetB p) net (map toLowerCase (protocols p)))
      else if operation p = ''addLiquidity'' then
        (case BigInt (amountA p) of
           Inl e \<Rightarrow> Inl e
         | Inr a \<Rightarrow>
             (case BigInt (amountB p) of
                Inl e \<Rightarrow> Inl e
              | Inr b \<Rightarrow>
                  Inr (AddLiquidity \<lparr>al_assetA = assetA p, al_assetB = assetB p,
                                      al_amountA = a, al_amountB = b,
                                      al_to = to_address p\<rparr> net)))
      else if operation p = ''removeLiquidity'' then
        (case BigInt (liquidity p) of
           Inl e \<Rightarrow> Inl e
         | Inr l \<Rightarrow>
             Inr (RemoveLiquidity \<lparr>rl_assetA = assetA p, rl_assetB = assetB p,
                                    rl_liquidity = l, rl_amountA = 0, rl_amountB = 0,
                                    rl_to = to_address p\<rparr> net))
      else if operation p = ''getUserPositions'' then
        Inr (GetUserPositions (address p) net)
      else if operation p = ''getAssetList'' then
        Inr (GetAssetList (if assetListName p \<noteq> [] then SupportedAssetLists E (assetListName p)
                           else None))
      else if operation p = ''getPrice'' then
        (let assetsList = map trim (split CHR '','' (assets p))
         in Inr (GetPrice (if length assetsList = 1 then SingleAsset (assetsList ! 0)
                           else AssetArray assetsList) net))
      else if operation p = ''getContractAddress'' then
        Inr (GetContractAddress net (contractName p))
      else
        Inl (NodeOperationError (messageOfString E (''Unknown operation: '' @ operation p))
               itemIndex))"

subsection \<open>The loop over the items\<close>

text \<open>
  The whole \<^verbatim>\<open>try\<close> block for one item: the coercion, then the awaited remote call,
  whose rejection is an exception like the others.
\<close>

definition tryItem ::
  "libraries \<Rightarrow> 'w SoroswapSDK \<Rightarrow> node_parameters \<Rightarrow> nat \<Rightarrow> 'w \<Rightarrow> (js_error + json) \<times> 'w" where
  "tryItem E sdk p itemIndex w =
     (case request E p itemIndex of
        Inl e \<Rightarrow> (Inl e, w)
      | Inr c \<Rightarrow>
          (case sdk c w of
             (Inl m, w') \<Rightarrow> (Inl (SdkError m), w')
           | (Inr result, w') \<Rightarrow> (Inr result, w')))"

text \<open>
  An output item. \<^verbatim>\<open>error\<close> is absent (\<^const>\<open>None\<close>) on the item pushed after a
  successful call (lines 587-590) and present on the one pushed by the \<^verbatim>\<open>catch\<close>
  block (lines 594-598).
\<close>

record INodeExecutionData =
  json :: json
  error :: "js_error option"
  pairedItem :: nat

text \<open>
  The \<^verbatim>\<open>for\<close> loop (lines 458-605), from \<^verbatim>\<open>itemIndex\<close> on, with the items pushed
  so far and the state of the world. \<^verbatim>\<open>n\<close> is \<^verbatim>\<open>items.length\<close>. Without
  continue-on-fail the \<^verbatim>\<open>catch\<close> block throws a NodeOperationError built from the
  caught error, with the message the constructor gives it and the item index: the run
  ends there, with no output.
\<close>

function loop ::
  "libraries \<Rightarrow> 'w SoroswapSDK \<Rightarrow> bool \<Rightarrow> nat \<Rightarrow> (nat \<Rightarrow> node_parameters) \<Rightarrow>
   nat \<Rightarrow> INodeExecutionData list \<Rightarrow> 'w \<Rightarrow> (js_error + INodeExecutionData list) \<times> 'w" where
  "loop E sdk continueOnFail n getNodeParameter itemIndex returnData w =
     (if itemIndex < n then
        (case tryItem E sdk (getNodeParameter itemIndex) itemIndex w of
           (Inr result, w') \<Rightarrow>
             loop E sdk continueOnFail n getNodeParameter (itemIndex + 1)
               (returnData @ [\<lparr>json = result, error = None, pairedItem = itemIndex\<rparr>]) w'
         | (Inl e, w') \<Rightarrow>
             if continueOnFail then
               loop E sdk continueOnFail n getNodeParameter (itemIndex + 1)
                 (returnData @ [\<lparr>json = JObj [(''error'', JStr (message e))], error = Some e,
                                 pairedItem = itemIndex\<rparr>]) w'
             else (Inl (NodeOperationError (messageOfError E e) itemIndex), w'))
      else (Inr returnData, w))"
  by pat_completeness auto
termination
  by (relation "measure (\<lambda>(E, sdk, c, n, g, i, rd, w). n - i)") auto

text \<open>
  What the node asks of its host: the input items (the node uses their number only),
  the parameters of each item index, the credentials, whose resolution can fail, and
  the continue-on-fail setting.
\<close>

record ICredentials =
  apiKey :: string
  baseUrl :: string

record IExecuteFunctions =
  getInputData :: "INodeExecutionData list"
  getNodeParameter :: "nat \<Rightarrow> node_parameters"
  getCredentials :: "js_error + ICredentials"
  continueOnFail :: bool

text \<open>
  \<^verbatim>\<open>execute\<close>: the credentials are resolved once, before the loop, and their failure
  is the failure of the run; the client is built from them; the result is the one output
  branch \<^verbatim>\<open>[returnData]\<close>.
\<close>

definition execute ::
  "libraries \<Rightarrow> (ICredentials \<Rightarrow> 'w SoroswapSDK) \<Rightarrow> IExecuteFunctions \<Rightarrow> 'w \<Rightarrow>
   (js_error + INodeExecutionData list list) \<times> 'w" where
  "execute E newSdk this w =
     (case getCredentials this of
        Inl e \<Rightarrow> (Inl e, w)
      | Inr credentials \<Rightarrow>
          (case loop E (newSdk credentials) (continueOnFail this) (length (getInputData this))
                  (getNodeParameter this) 0 [] w of
             (Inl e, w') \<Rightarrow> (Inl e, w')
           | (Inr returnData, w') \<Rightarrow> (Inr [returnData], w')))"


subsection \<open>Notions used to state the properties\<close>

text \<open>The item the loop pushes for an outcome of the \<^verbatim>\<open>try\<close> block.\<close>

definition itemData :: "js_error + json \<Rightarrow> nat \<Rightarrow> INodeExecutionData" where
  "itemData r itemIndex =
     (case r of
        Inr result \<Rightarrow> \<lparr>json = result, error = None, pairedItem = itemIndex\<rparr>
      | Inl e \<Rightarrow> \<lparr>json = JObj [(''error'', JStr (message e))], error = Some e,
                  pairedItem = itemIndex\<rparr>)"

text \<open>
  The state of the world after the \<^verbatim>\<open>try\<close> blocks of the \<open>m\<close> items from index
  \<open>i\<close> on have run, one after the other, starting in \<open>w\<close>.
\<close>

fun worldAfter ::
  "libraries \<Rightarrow> 'w SoroswapSDK \<Rightarrow> (nat \<Rightarrow> node_parameters) \<Rightarrow> nat \<Rightarrow> nat \<Rightarrow> 'w \<Rightarrow> 'w" where
  "worldAfter E sdk getP i 0 w = w"
| "worldAfter E sdk getP i (Suc m) w =
     worldAfter E sdk getP (Suc i) m (snd (tryItem E sdk (getP i) i w))"

text \<open>The outcome of item \<open>k\<close> in a run that starts in \<open>w\<close> and does not stop before it.\<close>

definition outcome ::
  "libraries \<Rightarrow> 'w SoroswapSDK \<Rightarrow> (nat \<Rightarrow> node_parameters) \<Rightarrow> 'w \<Rightarrow> nat \<Rightarrow> js_error + json" where
  "outcome E sdk getP w k = fst (tryItem E sdk (getP k) k (worldAfter E sdk getP 0 k w))"

text \<open>The twelve values of the \<^verbatim>\<open>operation\<close> parameter that the \<^verbatim>\<open>switch\<close> has a case for.\<close>

definition knownOperations :: "string list" where
  "knownOperations =
     [''getProtocols'', ''quote'', ''build'', ''send'', ''getPools'', ''getPoolByTokens'',
      ''addLiquidity'', ''removeLiquidity'', ''getUserPositions'', ''getAssetList'',
      ''getPrice'', ''getContractAddress'']"

text \<open>
  \<^verbatim>\<open>segments.join(sep)\<close>, to say what \<^const>\<open>split\<close> computes: the segments put
  back together with the separator between them.
\<close>

fun join :: "char \<Rightarrow> string list \<Rightarrow> string" where
  "join sep [] = []"
| "join sep [seg] = seg"
| "join sep (seg # segs) = seg @ sep # join sep segs"

subsection \<open>A concrete run\<close>

text \<open>
  The default of each parameter in the node's description (lines 29-442).
\<close>

definition defaults :: node_parameters where
  "defaults =
     \<lparr>operation = ''getProtocols'', network = ''MAINNET'', assetIn = '''', assetOut = '''',
      amount = '''', tradeType = ''EXACT_IN'', protocols = [''SOROSWAP''], quote = JStr ''{}'',
      from_address = '''', to_address = '''', xdr = '''', launchtube = False, assetA = '''',
      assetB = '''', amountA = '''', amountB = '''', liquidity = '''', address = '''',
      assetListName = '''', assets = '''', contractName = ''factory''\<rparr>"

text \<open>\<^verbatim>\<open>haystack.includes(needle)\<close>, for the instance of the libraries below.\<close>

fun stringIncludes :: "string \<Rightarrow> string \<Rightarrow> bool" where
  "stringIncludes [] needle = (needle = [])"
| "stringIncludes (c # cs) needle =
     (take (length needle) (c # cs) = needle \<or> stringIncludes cs needle)"

text \<open>
  An instance of the libraries. The two enum objects have a member for each option of
  the node's \<^verbatim>\<open>protocols\<close> and \<^verbatim>\<open>assetListName\<close> parameters and inherit
  \<^verbatim>\<open>constructor\<close> and \<^verbatim>\<open>toString\<close>. The constructor of NodeOperationError
  replaces a message that contains the error code \<^verbatim>\<open>EPERM\<close>, in either case, by a
  fixed text; given a NodeOperationError it keeps that object's message; given an object
  that is no \<^verbatim>\<open>Error\<close> it builds an object with the empty message.
\<close>

definition exampleMessage :: "string \<Rightarrow> string" where
  "exampleMessage m =
     (if stringIncludes (toLowerCase m) ''eperm''
      then ''Operation not permitted, make sure you have the right permissions''
      else m)"

definition exampleLibraries :: libraries where
  "exampleLibraries =
     \<lparr>SupportedProtocols =
        [''SOROSWAP'' \<mapsto> Member (JStr ''soroswap''), ''PHOENIX'' \<mapsto> Member (JStr ''phoenix''),
         ''AQUA'' \<mapsto> Member (JStr ''aqua''), ''SDEX'' \<mapsto> Member (JStr ''sdex''),
         ''constructor'' \<mapsto> Inherited ''constructor'', ''toString'' \<mapsto> Inherited ''toString''],
      SupportedAssetLists =
        [''SOROSWAP'' \<mapsto> Member (JStr ''soroswap-list''),
         ''STELLAR_EXPERT'' \<mapsto> Member (JStr ''stellar-expert-list''),
         ''LOBSTR'' \<mapsto> Member (JStr ''lobstr-list''), ''AQUA'' \<mapsto> Member (JStr ''aqua-list''),
         ''constructor'' \<mapsto> Inherited ''constructor'', ''toString'' \<mapsto> Inherited ''toString''],
      messageOfString = exampleMessage,
      messageOfError =
        (\<lambda>e. case e of
               NodeOperationError m i \<Rightarrow> m
             | SyntaxError m \<Rightarrow> exampleMessage m
             | SdkError (ErrorInstance m) \<Rightarrow> exampleMessage m
             | SdkError (PlainObject m) \<Rightarrow> '''')\<rparr>"

text \<open>
  A client whose world is the list of the calls made so far: it rejects every
  \<^verbatim>\<open>send\<close>, with an object that is no \<^verbatim>\<open>Error\<close>, and resolves every other
  call to the same payload.
\<close>

definition exampleSdk :: "ICredentials \<Rightarrow> (sdk_call list) SoroswapSDK" where
  "exampleSdk credentials c w =
     (case c of
        Send x l net \<Rightarrow> (Inl (PlainObject ''rejected''), w @ [c])
      | _ \<Rightarrow> (Inr (JStr ''ok''), w @ [c]))"

definition exampleCredentials :: ICredentials where
  "exampleCredentials = \<lparr>apiKey = ''sk_test'', baseUrl = ''https://api.soroswap.finance''\<rparr>"

text \<open>A host with one input item for each element of \<open>ps\<close>, its parameters.\<close>

definition hostOf :: "node_parameters list \<Rightarrow> bool \<Rightarrow> IExecuteFunctions" where
  "hostOf ps flag =
     \<lparr>getInputData = map (\<lambda>p. \<lparr>json = JObj [], error = None, pairedItem = 0\<rparr>) ps,
      getNodeParameter = (\<lambda>i. if i < length ps then ps ! i else defaults),
      getCredentials = Inr exampleCredentials,
      continueOnFail = flag\<rparr>"

text \<open>
  Five items: a valid one, an unknown operation, a call the client rejects, an
  amount that is no integer, and a valid one again.
\<close>

definition exampleItems :: "node_parameters list" where
  "exampleItems =
     [defaults,
      defaults\<lparr>operation := ''doesNotExist''\<rparr>,
      defaults\<lparr>operation := ''send'', xdr := ''AAAA''\<rparr>,
      defaults\<lparr>operation := ''quote'', amount := ''abc''\<rparr>,
      defaults\<lparr>operation := ''getPools'', protocols := [''SOROSWAP'', ''AQUA'']\<rparr>]"

text \<open>The run of three items: a valid one, an invalid one, a valid one.\<close>

definition threeItems :: "node_parameters list" where
  "threeItems = [defaults, defaults\<lparr>operation := ''doesNotExist''\<rparr>, defaults]"

text \<open>
  The network and the trade type the node resolves from the parameters of an item
  (lines 462 and 476).
\<close>

abbreviation networkOf :: "node_parameters \<Rightarrow> SupportedNetworks" where
  "networkOf p \<equiv> (if network p = ''MAINNET'' then MAINNET else TESTNET)"

abbreviation tradeTypeOf :: "node_parameters \<Rightarrow> TradeType" where
  "tradeTypeOf p \<equiv> (if tradeType p = ''EXACT_IN'' then EXACT_IN else EXACT_OUT)"

section \<open>Properties\<close>

lemmas run_defs =
  execute_def hostOf_def exampleSdk_def exampleLibraries_def defaults_def tryItem_def request_def
  outcome_def itemData_def knownOperations_def exampleItems_def exampleCredentials_def
  exampleMessage_def

lemmas builtin_defs =
  BigInt_def trim_def isWhiteSpace_def parseNumeral_def digitValue_def toLowerCase_def
  lowerChar_def char_of_def bit_Suc_0_iff

lemmas w_simps = run_defs builtin_defs eval_nat_numeral threeItems_def

subsection \<open>The loop\<close>

lemma worldAfter_shift:
  "i < k \<Longrightarrow>
   worldAfter E sdk getP i (k - i) w =
     worldAfter E sdk getP (Suc i) (k - Suc i) (snd (tryItem E sdk (getP i) i w))"
proof -
  assume "i < k"
  then have "k - i = Suc (k - Suc i)" by simp
  then show ?thesis by simp
qed

lemma loop_continue:
  "c \<Longrightarrow> i \<le> n \<Longrightarrow>
   loop E sdk c n getP i acc w =
     (Inr (acc @ map (\<lambda>k. itemData (fst (tryItem E sdk (getP k) k
                                            (worldAfter E sdk getP i (k - i) w))) k) [i..<n]),
      worldAfter E sdk getP i (n - i) w)"
proof (induction E sdk c n getP i acc w rule: loop.induct)
  case (1 E sdk c n getP i acc w)
  show ?case
  proof (cases "i < n")
    case False
    with "1.prems" have "i = n" by simp
    then show ?thesis by simp
  next
    case True
    obtain r w' where t: "tryItem E sdk (getP i) i w = (r, w')"
      by (cases "tryItem E sdk (getP i) i w")
    have up: "[i..<n] = i # [Suc i..<n]"
      using True by (simp add: upt_conv_Cons)
    have step: "loop E sdk c n getP i acc w =
                loop E sdk c n getP (i + 1) (acc @ [itemData r i]) w'"
      using True t \<open>c\<close> by (subst loop.simps) (simp add: itemData_def split: sum.splits)
    have rest: "loop E sdk c n getP (i + 1) (acc @ [itemData r i]) w' =
        (Inr ((acc @ [itemData r i]) @
              map (\<lambda>k. itemData (fst (tryItem E sdk (getP k) k
                                        (worldAfter E sdk getP (i + 1) (k - (i + 1)) w'))) k)
                  [i + 1..<n]),
         worldAfter E sdk getP (i + 1) (n - (i + 1)) w')"
    proof (cases r)
      case (Inr res)
      show ?thesis
        using "1.IH"(2)[OF True t[symmetric] Inr \<open>c\<close>] True Inr by (simp add: itemData_def)
    next
      case (Inl e)
      show ?thesis
        using "1.IH"(1)[OF True t[symmetric] Inl \<open>c\<close> \<open>c\<close>] True Inl by (simp add: itemData_def)
    qed
    show ?thesis
      using step rest worldAfter_shift[of i _ E sdk getP w] True t up
      by (simp cong: map_cong)
  qed
qed

lemma loop_abort:
  "\<not> c \<Longrightarrow> i \<le> j \<Longrightarrow> j < n \<Longrightarrow>
   \<forall>k. i \<le> k \<and> k < j \<longrightarrow>
       \<not> isl (fst (tryItem E sdk (getP k) k (worldAfter E sdk getP i (k - i) w))) \<Longrightarrow>
   fst (tryItem E sdk (getP j) j (worldAfter E sdk getP i (j - i) w)) = Inl e \<Longrightarrow>
   loop E sdk c n getP i acc w =
     (Inl (NodeOperationError (messageOfError E e) j), worldAfter E sdk getP i (Suc j - i) w)"
proof (induction E sdk c n getP i acc w rule: loop.induct)
  case (1 E sdk c n getP i acc w)
  from "1.prems" have lt: "i < n" by simp
  obtain r w' where t: "tryItem E sdk (getP i) i w = (r, w')"
    by (cases "tryItem E sdk (getP i) i w")
  show ?case
  proof (cases "i = j")
    case True
    with "1.prems"(5) t have "r = Inl e" by simp
    then show ?thesis
      using lt t True "1.prems"(1) by (subst loop.simps) (simp add: Suc_diff_le)
  next
    case False
    with "1.prems"(2) have ij: "i < j" by simp
    from "1.prems"(4) ij t have "\<not> isl r" by fastforce
    then obtain res where r: "r = Inr res" by (cases r) auto
    have step: "loop E sdk c n getP i acc w =
                loop E sdk c n getP (i + 1)
                  (acc @ [\<lparr>json = res, error = None, pairedItem = i\<rparr>]) w'"
      using lt t r by (subst loop.simps) simp
    have a: "i + 1 \<le> j" using ij by simp
    have b: "\<forall>k. i + 1 \<le> k \<and> k < j \<longrightarrow>
       \<not> isl (fst (tryItem E sdk (getP k) k (worldAfter E sdk getP (i + 1) (k - (i + 1)) w')))"
    proof (intro allI impI)
      fix k assume k: "i + 1 \<le> k \<and> k < j"
      then have ik: "i < k" and rng: "i \<le> k \<and> k < j" by simp_all
      from "1.prems"(4) rng
      have "\<not> isl (fst (tryItem E sdk (getP k) k (worldAfter E sdk getP i (k - i) w)))"
        by blast
      then show "\<not> isl (fst (tryItem E sdk (getP k) k
                     (worldAfter E sdk getP (i + 1) (k - (i + 1)) w')))"
        using worldAfter_shift[OF ik, of E sdk getP w] t by simp
    qed
    have d: "fst (tryItem E sdk (getP j) j (worldAfter E sdk getP (i + 1) (j - (i + 1)) w')) = Inl e"
      using "1.prems"(5) worldAfter_shift[of i j E sdk getP w] t ij by simp
    show ?thesis
      using "1.IH"(2)[OF lt t[symmetric] r "1.prems"(1) a "1.prems"(3) b d]
            step worldAfter_shift[of i "Suc j" E sdk getP w] t ij
      by simp
  qed
qed

lemma execute_continue:
  assumes "getCredentials this = Inr cr" and "continueOnFail this"
  shows "execute E newSdk this w =
     (Inr [map (\<lambda>k. itemData (outcome E (newSdk cr) (getNodeParameter this) w k) k)
               [0..<length (getInputData this)]],
      worldAfter E (newSdk cr) (getNodeParameter this) 0 (length (getInputData this)) w)"
  using assms
    loop_continue[of True 0 "length (getInputData this)" E "newSdk cr" "getNodeParameter this" "[]" w]
  by (simp add: execute_def outcome_def)

lemma execute_abort:
  assumes "getCredentials this = Inr cr" and "\<not> continueOnFail this"
    and "j < length (getInputData this)"
    and "\<forall>k<j. \<not> isl (outcome E (newSdk cr) (getNodeParameter this) w k)"
    and "outcome E (newSdk cr) (getNodeParameter this) w j = Inl e"
  shows "execute E newSdk this w =
     (Inl (NodeOperationError (messageOfError E e) j),
      worldAfter E (newSdk cr) (getNodeParameter this) 0 (Suc j) w)"
  using assms
    loop_abort[of False 0 j "length (getInputData this)" E "newSdk cr" "getNodeParameter this" w e "[]"]
  by (simp add: execute_def outcome_def)

lemma worldAfter_Suc:
  "worldAfter E sdk getP i (Suc m) w =
     snd (tryItem E sdk (getP (i + m)) (i + m) (worldAfter E sdk getP i m w))"
  by (induction m arbitrary: i w) simp_all

lemma request_unknown:
  "operation p \<notin> set knownOperations \<Longrightarrow>
   request E p j =
     Inl (NodeOperationError (messageOfString E (''Unknown operation: '' @ operation p)) j)"
  by (simp add: request_def knownOperations_def)

lemma outcome_request_fails:
  "request E (getP j) j = Inl e \<Longrightarrow> outcome E sdk getP w j = Inl e"
  by (simp add: outcome_def tryItem_def)

lemma worldAfter_request_fails:
  "request E (getP j) j = Inl e \<Longrightarrow>
   worldAfter E sdk getP 0 (Suc j) w = worldAfter E sdk getP 0 j w"
  by (subst worldAfter_Suc) (simp add: tryItem_def)

subsection \<open>The coercion\<close>

lemma request_quote:
  "operation p = ''quote'' \<Longrightarrow>
   request E p j =
     (case BigInt (amount p) of
        Inl e \<Rightarrow> Inl e
      | Inr a \<Rightarrow> Inr (Quote \<lparr>q_assetIn = assetIn p, q_assetOut = assetOut p, q_amount = a,
                               q_tradeType = tradeTypeOf p,
                               q_protocols = map (SupportedProtocols E) (protocols p)\<rparr>
                        (networkOf p)))"
  by (simp add: request_def)

lemma request_addLiquidity:
  "operation p = ''addLiquidity'' \<Longrightarrow>
   request E p j =
     (case BigInt (amountA p) of
        Inl e \<Rightarrow> Inl e
      | Inr a \<Rightarrow>
          (case BigInt (amountB p) of
             Inl e \<Rightarrow> Inl e
           | Inr b \<Rightarrow> Inr (AddLiquidity \<lparr>al_assetA = assetA p, al_assetB = assetB p,
                                           al_amountA = a, al_amountB = b,
                                           al_to = to_address p\<rparr> (networkOf p))))"
  by (simp add: request_def)

lemma request_removeLiquidity:
  "operation p = ''removeLiquidity'' \<Longrightarrow>
   request E p j =
     (case BigInt (liquidity p) of
        Inl e \<Rightarrow> Inl e
      | Inr l \<Rightarrow> Inr (RemoveLiquidity \<lparr>rl_assetA = assetA p, rl_assetB = assetB p,
                                         rl_liquidity = l, rl_amountA = 0, rl_amountB = 0,
                                         rl_to = to_address p\<rparr> (networkOf p)))"
  by (simp add: request_def)

lemma request_ignores_minimums:
  "operation p = ''removeLiquidity'' \<Longrightarrow>
   request E (p\<lparr>amountA := x, amountB := y\<rparr>) j = request E p j"
  by (simp add: request_def cong: sum.case_cong)

lemma BigInt_big:
  "BigInt ''123456789012345678901234567890'' = Inr 123456789012345678901234567890"
  by (simp add: builtin_defs)

lemma BigInt_abc: "BigInt ''abc'' = Inl (SyntaxError ''Cannot convert abc to a BigInt'')"
  by (simp add: builtin_defs)

lemma BigInt_empty: "BigInt '''' = Inr 0"
  by (simp add: builtin_defs)

lemma BigInt_error: "BigInt s = Inl e \<Longrightarrow> \<exists>m. e = SyntaxError m"
  by (auto simp: BigInt_def split: option.splits)

lemma failure_recorded:
  assumes "getCredentials this = Inr cr" and "continueOnFail this"
    and "j < length (getInputData this)"
    and "request E (getNodeParameter this j) j = Inl e"
  shows "\<exists>out. fst (execute E newSdk this w) = Inr [out] \<and>
           length out = length (getInputData this) \<and>
           out ! j = \<lparr>json = JObj [(''error'', JStr (message e))], error = Some e,
                       pairedItem = j\<rparr>"
proof -
  let ?out = "map (\<lambda>k. itemData (outcome E (newSdk cr) (getNodeParameter this) w k) k)
                  [0..<length (getInputData this)]"
  have "fst (execute E newSdk this w) = Inr [?out]"
    by (simp add: execute_continue[OF assms(1,2)])
  moreover have "length ?out = length (getInputData this)" by simp
  moreover have "?out ! j = \<lparr>json = JObj [(''error'', JStr (message e))], error = Some e,
                              pairedItem = j\<rparr>"
    using assms(3) outcome_request_fails[of E "getNodeParameter this" j e "newSdk cr" w, OF assms(4)]
    by (simp add: itemData_def)
  ultimately show ?thesis by blast
qed

lemma request_getPools:
  "operation p = ''getPools'' \<Longrightarrow>
   request E p j = Inr (GetPools (networkOf p) (map toLowerCase (protocols p)))"
  by (simp add: request_def)

lemma request_getPoolByTokens:
  "operation p = ''getPoolByTokens'' \<Longrightarrow>
   request E p j =
     Inr (GetPoolByTokens (assetA p) (assetB p) (networkOf p) (map toLowerCase (protocols p)))"
  by (simp add: request_def)

lemma request_getContractAddress:
  "operation p = ''getContractAddress'' \<Longrightarrow>
   request E p j = Inr (GetContractAddress (networkOf p) (contractName p))"
  by (simp add: request_def)

lemma request_getAssetList:
  "operation p = ''getAssetList'' \<Longrightarrow>
   request E p j =
     Inr (GetAssetList (if assetListName p \<noteq> [] then SupportedAssetLists E (assetListName p)
                        else None))"
  by (simp add: request_def)

lemma request_getPrice:
  "operation p = ''getPrice'' \<Longrightarrow>
   request E p j =
     Inr (GetPrice (if length (map trim (split CHR '','' (assets p))) = 1
                    then SingleAsset (map trim (split CHR '','' (assets p)) ! 0)
                    else AssetArray (map trim (split CHR '','' (assets p)))) (networkOf p))"
  by (simp add: request_def)

lemma request_isl:
  "isl (request E p j) \<longleftrightarrow>
     (operation p = ''quote'' \<and> isl (BigInt (amount p))) \<or>
     (operation p = ''addLiquidity'' \<and> (isl (BigInt (amountA p)) \<or> isl (BigInt (amountB p)))) \<or>
     (operation p = ''removeLiquidity'' \<and> isl (BigInt (liquidity p))) \<or>
     operation p \<notin> set knownOperations"
  by (simp add: request_def knownOperations_def Let_def split: sum.splits)

lemma request_network:
  "n \<noteq> ''MAINNET'' \<Longrightarrow>
   request E (p\<lparr>network := n\<rparr>) j = request E (p\<lparr>network := ''TESTNET''\<rparr>) j"
  by (simp add: request_def cong: sum.case_cong)

lemma request_tradeType:
  "t \<noteq> ''EXACT_IN'' \<Longrightarrow>
   request E (p\<lparr>tradeType := t\<rparr>) j = request E (p\<lparr>tradeType := ''EXACT_OUT''\<rparr>) j"
  by (simp add: request_def cong: sum.case_cong)

subsection \<open>Splitting and trimming\<close>

lemma split_nonempty: "split sep s \<noteq> []"
  by (induction s) (auto split: list.splits)

lemma length_split: "length (split sep s) = Suc (count_list s sep)"
  by (induction s) (auto split: list.splits simp: split_nonempty)

lemma join_Cons: "segs \<noteq> [] \<Longrightarrow> join sep (seg # segs) = seg @ sep # join sep segs"
  by (cases segs) simp_all

lemma join_split: "join sep (split sep s) = s"
proof (induction s)
  case Nil
  show ?case by simp
next
  case (Cons c cs)
  show ?case
  proof (cases "c = sep")
    case True
    then show ?thesis using Cons by (simp add: join_Cons split_nonempty)
  next
    case False
    obtain seg segs where s: "split sep cs = seg # segs"
      using split_nonempty[of sep cs] by (cases "split sep cs") auto
    show ?thesis
    proof (cases segs)
      case Nil
      with s False Cons show ?thesis by simp
    next
      case (Cons a as)
      with s False Cons.IH show ?thesis by simp
    qed
  qed
qed

lemma split_no_sep: "seg \<in> set (split sep s) \<Longrightarrow> sep \<notin> set seg"
  by (induction s arbitrary: seg) (auto split: if_splits list.splits)

lemma split_no_separator: "sep \<notin> set s \<Longrightarrow> split sep s = [s]"
  by (induction s) auto

lemma trim_decompose:
  "\<exists>l r. s = l @ trim s @ r \<and> (\<forall>c\<in>set l. isWhiteSpace c) \<and> (\<forall>c\<in>set r. isWhiteSpace c)"
proof -
  let ?t = "dropWhile isWhiteSpace s"
  let ?l = "takeWhile isWhiteSpace s"
  let ?r = "rev (takeWhile isWhiteSpace (rev ?t))"
  have "trim s @ ?r = rev (takeWhile isWhiteSpace (rev ?t) @ dropWhile isWhiteSpace (rev ?t))"
    by (simp only: trim_def rev_append)
  also have "\<dots> = rev (rev ?t)"
    by (simp only: takeWhile_dropWhile_id)
  finally have "?t = trim s @ ?r"
    by simp
  moreover have "s = ?l @ ?t" by simp
  ultimately have "s = ?l @ trim s @ ?r" by simp
  moreover have "\<forall>c\<in>set ?l. isWhiteSpace c" by (auto dest: set_takeWhileD)
  moreover have "\<forall>c\<in>set ?r. isWhiteSpace c" by (auto dest: set_takeWhileD)
  ultimately show ?thesis by blast
qed

lemma trim_ends:
  "trim s \<noteq> [] \<Longrightarrow> \<not> isWhiteSpace (hd (trim s)) \<and> \<not> isWhiteSpace (last (trim s))"
proof -
  assume ne: "trim s \<noteq> []"
  let ?t = "dropWhile isWhiteSpace s"
  let ?u = "dropWhile isWhiteSpace (rev ?t)"
  from ne have u: "?u \<noteq> []" by (simp add: trim_def)
  have t: "?t \<noteq> []"
  proof
    assume a: "?t = []"
    have "?u = dropWhile isWhiteSpace (rev [])" by (simp only: a)
    then have "?u = []" by (simp only: rev.simps dropWhile.simps)
    with u show False by blast
  qed
  have "last (trim s) = hd ?u" using u by (simp add: trim_def last_rev)
  moreover have "\<not> isWhiteSpace (hd ?u)" using u by (rule hd_dropWhile)
  moreover have "hd (trim s) = last ?u" using u by (simp add: trim_def hd_rev)
  moreover have "last ?u = last (rev ?t)"
  proof -
    have "rev ?t = takeWhile isWhiteSpace (rev ?t) @ ?u" by simp
    then have "last (rev ?t) = last (takeWhile isWhiteSpace (rev ?t) @ ?u)" by simp
    also have "\<dots> = last ?u" using u by (rule last_appendR)
    finally show ?thesis by simp
  qed
  moreover have "last (rev ?t) = hd ?t" using t by (simp add: last_rev)
  moreover have "\<not> isWhiteSpace (hd ?t)" using t by (rule hd_dropWhile)
  ultimately show ?thesis by simp
qed

subsection \<open>Pairing of the output with the input\<close>

text \<open>
  C1. With continue-on-fail set (and the credentials resolved), a run over \<open>N\<close> input
  items returns one output branch of exactly \<open>N\<close> items, and for every index \<open>i\<close>
  the item at position \<open>i\<close> is the one pushed for the outcome of item \<open>i\<close>: the
  payload of its remote call, or the record of its failure. It carries the pairing index
  \<open>i\<close>, and it carries an error exactly when item \<open>i\<close> failed, whichever items fail.
\<close>

theorem pairing_invariant:
  assumes "getCredentials this = Inr cr" and "continueOnFail this"
  shows "\<exists>out. fst (execute E newSdk this w) = Inr [out] \<and>
           length out = length (getInputData this) \<and>
           (\<forall>i<length (getInputData this).
              out ! i = itemData (outcome E (newSdk cr) (getNodeParameter this) w i) i \<and>
              pairedItem (out ! i) = i \<and>
              (error (out ! i) \<noteq> None \<longleftrightarrow> isl (outcome E (newSdk cr) (getNodeParameter this) w i)))"
proof -
  let ?out = "map (\<lambda>k. itemData (outcome E (newSdk cr) (getNodeParameter this) w k) k)
                  [0..<length (getInputData this)]"
  have "fst (execute E newSdk this w) = Inr [?out]"
    by (simp add: execute_continue[OF assms])
  moreover have "length ?out = length (getInputData this)" by simp
  moreover have "\<forall>i<length (getInputData this).
      ?out ! i = itemData (outcome E (newSdk cr) (getNodeParameter this) w i) i \<and>
      pairedItem (?out ! i) = i \<and>
      (error (?out ! i) \<noteq> None \<longleftrightarrow> isl (outcome E (newSdk cr) (getNodeParameter this) w i))"
    by (simp add: itemData_def split: sum.splits)
  ultimately show ?thesis by blast
qed

theorem pairing_invariant_witness:
  "getCredentials (hostOf exampleItems True) = Inr exampleCredentials \<and>
   continueOnFail (hostOf exampleItems True) \<and>
   (\<exists>out. fst (execute exampleLibraries exampleSdk (hostOf exampleItems True) []) = Inr [out] \<and>
      length out = length (getInputData (hostOf exampleItems True)) \<and>
      (\<forall>i<length (getInputData (hostOf exampleItems True)).
         out ! i = itemData (outcome exampleLibraries (exampleSdk exampleCredentials)
                               (getNodeParameter (hostOf exampleItems True)) [] i) i \<and>
         pairedItem (out ! i) = i \<and>
         (error (out ! i) \<noteq> None \<longleftrightarrow>
            isl (outcome exampleLibraries (exampleSdk exampleCredentials)
                   (getNodeParameter (hostOf exampleItems True)) [] i)))) \<and>
   map error (hd (projr (fst (execute exampleLibraries exampleSdk (hostOf exampleItems True) [])))) =
     [None, Some (NodeOperationError ''Unknown operation: doesNotExist'' 1),
      Some (SdkError (PlainObject ''rejected'')), Some (SyntaxError ''Cannot convert abc to a BigInt''), None]"
proof -
  have h1: "getCredentials (hostOf exampleItems True) = Inr exampleCredentials"
    by (simp add: hostOf_def)
  have h2: "continueOnFail (hostOf exampleItems True)"
    by (simp add: hostOf_def)
  have run: "map error (hd (projr (fst (execute exampleLibraries exampleSdk (hostOf exampleItems True) [])))) =
     [None, Some (NodeOperationError ''Unknown operation: doesNotExist'' 1),
      Some (SdkError (PlainObject ''rejected'')), Some (SyntaxError ''Cannot convert abc to a BigInt''), None]"
    by (simp add: run_defs builtin_defs)
  show ?thesis
    by (intro conjI h1 h2 run pairing_invariant[OF h1 h2])
qed

subsection \<open>Fail-fast and continue-on-fail\<close>

text \<open>
  C2. A run over three items of which the first and the third succeed and the second
  fails. Without continue-on-fail the run throws the NodeOperationError built from the
  error of the second item, with item index 1, and returns no output; the world is the
  one left by the first two items, so the third is never processed. With continue-on-fail the run returns exactly three
  items: a success, the failure record of the second item, a success.
\<close>

theorem fail_fast_vs_continue:
  assumes "getCredentials this = Inr cr" and "length (getInputData this) = 3"
    and "outcome E (newSdk cr) (getNodeParameter this) w 0 = Inr r0"
    and "outcome E (newSdk cr) (getNodeParameter this) w 1 = Inl e"
    and "outcome E (newSdk cr) (getNodeParameter this) w 2 = Inr r2"
  shows "execute E newSdk (this\<lparr>continueOnFail := False\<rparr>) w =
           (Inl (NodeOperationError (messageOfError E e) 1),
            worldAfter E (newSdk cr) (getNodeParameter this) 0 2 w) \<and>
         fst (execute E newSdk (this\<lparr>continueOnFail := True\<rparr>) w) =
           Inr [[\<lparr>json = r0, error = None, pairedItem = 0\<rparr>,
                 \<lparr>json = JObj [(''error'', JStr (message e))], error = Some e, pairedItem = 1\<rparr>,
                 \<lparr>json = r2, error = None, pairedItem = 2\<rparr>]]"
proof
  have "\<forall>k<1. \<not> isl (outcome E (newSdk cr) (getNodeParameter (this\<lparr>continueOnFail := False\<rparr>)) w k)"
    using assms(3) by simp
  then show "execute E newSdk (this\<lparr>continueOnFail := False\<rparr>) w =
           (Inl (NodeOperationError (messageOfError E e) 1),
            worldAfter E (newSdk cr) (getNodeParameter this) 0 2 w)"
    using execute_abort[of "this\<lparr>continueOnFail := False\<rparr>" cr 1 E newSdk w e] assms
    by (simp add: numeral_2_eq_2)
next
  have three: "[0..<3] = [0, 1, 2]" by (simp add: upt_rec)
  show "fst (execute E newSdk (this\<lparr>continueOnFail := True\<rparr>) w) =
           Inr [[\<lparr>json = r0, error = None, pairedItem = 0\<rparr>,
                 \<lparr>json = JObj [(''error'', JStr (message e))], error = Some e, pairedItem = 1\<rparr>,
                 \<lparr>json = r2, error = None, pairedItem = 2\<rparr>]]"
    using execute_continue[of "this\<lparr>continueOnFail := True\<rparr>" cr E newSdk w] assms three
    by (simp add: itemData_def)
qed

theorem fail_fast_vs_continue_witness:
  "getCredentials (hostOf threeItems False) = Inr exampleCredentials \<and>
   length (getInputData (hostOf threeItems False)) = 3 \<and>
   outcome exampleLibraries (exampleSdk exampleCredentials) (getNodeParameter (hostOf threeItems False)) [] 0
     = Inr (JStr ''ok'') \<and>
   outcome exampleLibraries (exampleSdk exampleCredentials) (getNodeParameter (hostOf threeItems False)) [] 1
     = Inl (NodeOperationError ''Unknown operation: doesNotExist'' 1) \<and>
   outcome exampleLibraries (exampleSdk exampleCredentials) (getNodeParameter (hostOf threeItems False)) [] 2
     = Inr (JStr ''ok'') \<and>
   execute exampleLibraries exampleSdk (hostOf threeItems False) [] =
     (Inl (NodeOperationError ''Unknown operation: doesNotExist'' 1), [GetProtocols MAINNET]) \<and>
   fst (execute exampleLibraries exampleSdk (hostOf threeItems True) []) =
     Inr [[\<lparr>json = JStr ''ok'', error = None, pairedItem = 0\<rparr>,
           \<lparr>json = JObj [(''error'', JStr ''Unknown operation: doesNotExist'')],
             error = Some (NodeOperationError ''Unknown operation: doesNotExist'' 1),
             pairedItem = 1\<rparr>,
           \<lparr>json = JStr ''ok'', error = None, pairedItem = 2\<rparr>]]"
proof -
  let ?H = "hostOf threeItems False"
  let ?out = "outcome exampleLibraries (exampleSdk exampleCredentials) (getNodeParameter ?H) []"
  have h1: "getCredentials ?H = Inr exampleCredentials" by (simp add: hostOf_def)
  have h2: "length (getInputData ?H) = 3" by (simp add: hostOf_def threeItems_def)
  have h3: "?out 0 = Inr (JStr ''ok'')" by (simp add: w_simps)
  have h4: "?out 1 = Inl (NodeOperationError ''Unknown operation: doesNotExist'' 1)"
    by (simp add: w_simps)
  have h5: "?out 2 = Inr (JStr ''ok'')" by (simp add: w_simps)
  have u1: "?H\<lparr>continueOnFail := False\<rparr> = hostOf threeItems False" by (simp add: hostOf_def)
  have u2: "?H\<lparr>continueOnFail := True\<rparr> = hostOf threeItems True" by (simp add: hostOf_def)
  have w: "worldAfter exampleLibraries (exampleSdk exampleCredentials) (getNodeParameter ?H) 0 2 []
             = [GetProtocols MAINNET]"
    by (simp add: w_simps)
  have m: "messageOfError exampleLibraries (NodeOperationError ''Unknown operation: doesNotExist'' 1)
             = ''Unknown operation: doesNotExist''"
    by (simp add: exampleLibraries_def)
  from fail_fast_vs_continue[of ?H exampleCredentials exampleLibraries exampleSdk "[]", OF h1 h2 h3 h4 h5]
    h1 h2 h3 h4 h5 show ?thesis
    by (simp only: u1 u2 w m js_error.simps message.simps)
qed

subsection \<open>Unknown operations\<close>

text \<open>
  C3, as the claim states it, fails: without continue-on-fail an item with an unknown
  operation ends the run with a NodeOperationError, no failure record is produced and
  the next item is never processed.
\<close>

theorem unknown_operation_terminates_run:
  "operation (defaults\<lparr>operation := ''doesNotExist''\<rparr>) \<notin> set knownOperations \<and>
   execute exampleLibraries exampleSdk
     (hostOf [defaults\<lparr>operation := ''doesNotExist''\<rparr>, defaults] False) [] =
     (Inl (NodeOperationError ''Unknown operation: doesNotExist'' 0), [])"
  by (simp add: run_defs builtin_defs)

text \<open>
  C3, amended. An item whose operation is none of the twelve known ones: with
  continue-on-fail the run goes on to the end, and the output item at its index is the
  failure record of the NodeOperationError that the node builds from the description
  \<^verbatim>\<open>Unknown operation: \<close> followed by the identifier, with the item's index; the
  message in the record is the one the constructor gives that error. Without
  continue-on-fail a run that reaches the item ends there, with the NodeOperationError
  built from that error for the item's index, and the item makes no remote call.
\<close>

theorem unknown_operation:
  assumes "getCredentials this = Inr cr" and "j < length (getInputData this)"
    and "operation (getNodeParameter this j) \<notin> set knownOperations"
  shows "(continueOnFail this \<longrightarrow>
            (\<exists>out. fst (execute E newSdk this w) = Inr [out] \<and>
                   length out = length (getInputData this) \<and>
                   out ! j =
                     \<lparr>json = JObj [(''error'',
                                     JStr (messageOfString E
                                             (''Unknown operation: '' @
                                              operation (getNodeParameter this j))))],
                      error = Some (NodeOperationError
                                      (messageOfString E
                                         (''Unknown operation: '' @
                                          operation (getNodeParameter this j))) j),
                      pairedItem = j\<rparr>)) \<and>
         (\<not> continueOnFail this \<longrightarrow>
            (\<forall>k<j. \<not> isl (outcome E (newSdk cr) (getNodeParameter this) w k)) \<longrightarrow>
            execute E newSdk this w =
              (Inl (NodeOperationError
                      (messageOfError E
                         (NodeOperationError
                            (messageOfString E
                               (''Unknown operation: '' @ operation (getNodeParameter this j)))
                            j))
                      j),
               worldAfter E (newSdk cr) (getNodeParameter this) 0 j w))"
proof (intro conjI impI)
  let ?m = "messageOfString E (''Unknown operation: '' @ operation (getNodeParameter this j))"
  let ?e = "NodeOperationError ?m j"
  have req: "request E (getNodeParameter this j) j = Inl ?e"
    using assms(3) by (rule request_unknown)
  have out: "outcome E (newSdk cr) (getNodeParameter this) w j = Inl ?e"
    using req by (rule outcome_request_fails)
  {
    assume c: "continueOnFail this"
    let ?out = "map (\<lambda>k. itemData (outcome E (newSdk cr) (getNodeParameter this) w k) k)
                    [0..<length (getInputData this)]"
    have "fst (execute E newSdk this w) = Inr [?out]"
      by (simp add: execute_continue[OF assms(1) c])
    moreover have "length ?out = length (getInputData this)" by simp
    moreover have "?out ! j = \<lparr>json = JObj [(''error'', JStr ?m)], error = Some ?e,
                                pairedItem = j\<rparr>"
      using assms(2) out by (simp add: itemData_def)
    ultimately show "\<exists>out. fst (execute E newSdk this w) = Inr [out] \<and>
                   length out = length (getInputData this) \<and>
                   out ! j = \<lparr>json = JObj [(''error'', JStr ?m)], error = Some ?e,
                               pairedItem = j\<rparr>"
      by blast
  }
  {
    assume c: "\<not> continueOnFail this"
      and before: "\<forall>k<j. \<not> isl (outcome E (newSdk cr) (getNodeParameter this) w k)"
    show "execute E newSdk this w =
            (Inl (NodeOperationError (messageOfError E ?e) j),
             worldAfter E (newSdk cr) (getNodeParameter this) 0 j w)"
      using execute_abort[of this cr j E newSdk w ?e, OF assms(1) c assms(2) before out]
            worldAfter_request_fails[of E "getNodeParameter this" j ?e "newSdk cr" w, OF req]
      by simp
  }
qed

theorem unknown_operation_witness:
  "getCredentials (hostOf exampleItems True) = Inr exampleCredentials \<and>
   1 < length (getInputData (hostOf exampleItems True)) \<and>
   operation (getNodeParameter (hostOf exampleItems True) 1) \<notin> set knownOperations \<and>
   continueOnFail (hostOf exampleItems True) \<and>
   (\<exists>out. fst (execute exampleLibraries exampleSdk (hostOf exampleItems True) []) = Inr [out] \<and>
          length out = 5 \<and>
          out ! 1 = \<lparr>json = JObj [(''error'', JStr ''Unknown operation: doesNotExist'')],
                      error = Some (NodeOperationError ''Unknown operation: doesNotExist'' 1),
                      pairedItem = 1\<rparr>) \<and>
   getCredentials (hostOf exampleItems False) = Inr exampleCredentials \<and>
   1 < length (getInputData (hostOf exampleItems False)) \<and>
   operation (getNodeParameter (hostOf exampleItems False) 1) \<notin> set knownOperations \<and>
   \<not> continueOnFail (hostOf exampleItems False) \<and>
   \<not> isl (outcome exampleLibraries (exampleSdk exampleCredentials)
            (getNodeParameter (hostOf exampleItems False)) [] 0) \<and>
   execute exampleLibraries exampleSdk (hostOf exampleItems False) [] =
     (Inl (NodeOperationError ''Unknown operation: doesNotExist'' 1), [GetProtocols MAINNET]) \<and>
   operation (getNodeParameter (hostOf [defaults\<lparr>operation := ''deletePermissions''\<rparr>] True) 0)
     \<notin> set knownOperations \<and>
   (\<exists>out. fst (execute exampleLibraries exampleSdk
                  (hostOf [defaults\<lparr>operation := ''deletePermissions''\<rparr>] True) []) = Inr [out] \<and>
          length out = 1 \<and>
          out ! 0 =
            \<lparr>json = JObj [(''error'',
                            JStr ''Operation not permitted, make sure you have the right permissions'')],
             error = Some (NodeOperationError
                             ''Operation not permitted, make sure you have the right permissions'' 0),
             pairedItem = 0\<rparr>)"
proof -
  let ?T = "hostOf exampleItems True" and ?F = "hostOf exampleItems False"
  let ?P = "hostOf [defaults\<lparr>operation := ''deletePermissions''\<rparr>] True"
  have t1: "getCredentials ?T = Inr exampleCredentials" by (simp add: hostOf_def)
  have t2: "1 < length (getInputData ?T)" by (simp add: hostOf_def exampleItems_def)
  have t3: "operation (getNodeParameter ?T 1) \<notin> set knownOperations"
    by (simp add: hostOf_def exampleItems_def knownOperations_def)
  have t4: "continueOnFail ?T" by (simp add: hostOf_def)
  have f1: "getCredentials ?F = Inr exampleCredentials" by (simp add: hostOf_def)
  have f2: "1 < length (getInputData ?F)" by (simp add: hostOf_def exampleItems_def)
  have f3: "operation (getNodeParameter ?F 1) \<notin> set knownOperations"
    by (simp add: hostOf_def exampleItems_def knownOperations_def)
  have f4: "\<not> continueOnFail ?F" by (simp add: hostOf_def)
  have f0: "\<not> isl (outcome exampleLibraries (exampleSdk exampleCredentials)
                      (getNodeParameter ?F) [] 0)"
    by (simp add: run_defs)
  then have f5: "\<forall>k<1. \<not> isl (outcome exampleLibraries (exampleSdk exampleCredentials)
                      (getNodeParameter ?F) [] k)"
    by simp
  have p1: "getCredentials ?P = Inr exampleCredentials" by (simp add: hostOf_def)
  have p2: "0 < length (getInputData ?P)" by (simp add: hostOf_def)
  have p3: "operation (getNodeParameter ?P 0) \<notin> set knownOperations"
    by (simp add: hostOf_def knownOperations_def)
  have p4: "continueOnFail ?P" by (simp add: hostOf_def)
  have op: "operation (getNodeParameter ?T 1) = ''doesNotExist''"
           "operation (getNodeParameter ?F 1) = ''doesNotExist''"
           "operation (getNodeParameter ?P 0) = ''deletePermissions''"
    by (simp_all add: hostOf_def exampleItems_def)
  have m1: "messageOfString exampleLibraries ''Unknown operation: doesNotExist''
              = ''Unknown operation: doesNotExist''"
    by (simp add: exampleLibraries_def exampleMessage_def builtin_defs)
  have m2: "messageOfError exampleLibraries (NodeOperationError ''Unknown operation: doesNotExist'' 1)
              = ''Unknown operation: doesNotExist''"
    by (simp add: exampleLibraries_def)
  have m3: "messageOfString exampleLibraries ''Unknown operation: deletePermissions''
              = ''Operation not permitted, make sure you have the right permissions''"
    by (simp add: exampleLibraries_def exampleMessage_def builtin_defs)
  have len: "length (getInputData ?T) = 5" "length (getInputData ?P) = 1"
    by (simp_all add: hostOf_def exampleItems_def)
  have w: "worldAfter exampleLibraries (exampleSdk exampleCredentials) (getNodeParameter ?F) 0 1 []
             = [GetProtocols MAINNET]"
    by (simp add: run_defs)
  have a: "\<exists>out. fst (execute exampleLibraries exampleSdk ?T []) = Inr [out] \<and>
          length out = 5 \<and>
          out ! 1 = \<lparr>json = JObj [(''error'', JStr ''Unknown operation: doesNotExist'')],
                      error = Some (NodeOperationError ''Unknown operation: doesNotExist'' 1),
                      pairedItem = 1\<rparr>"
    using unknown_operation[of ?T exampleCredentials 1 exampleLibraries exampleSdk "[]",
                            OF t1 t2 t3, THEN conjunct1, THEN mp, OF t4]
    by (simp only: op len append.simps m1)
  have b: "execute exampleLibraries exampleSdk ?F [] =
     (Inl (NodeOperationError ''Unknown operation: doesNotExist'' 1), [GetProtocols MAINNET])"
    using unknown_operation[of ?F exampleCredentials 1 exampleLibraries exampleSdk "[]",
                            OF f1 f2 f3, THEN conjunct2, THEN mp, OF f4, THEN mp, OF f5]
    by (simp only: op w append.simps m1 m2)
  have c: "\<exists>out. fst (execute exampleLibraries exampleSdk ?P []) = Inr [out] \<and>
          length out = 1 \<and>
          out ! 0 =
            \<lparr>json = JObj [(''error'',
                            JStr ''Operation not permitted, make sure you have the right permissions'')],
             error = Some (NodeOperationError
                             ''Operation not permitted, make sure you have the right permissions'' 0),
             pairedItem = 0\<rparr>"
    using unknown_operation[of ?P exampleCredentials 0 exampleLibraries exampleSdk "[]",
                            OF p1 p2 p3, THEN conjunct1, THEN mp, OF p4]
    by (simp only: op len append.simps m3)
  show ?thesis
    by (intro conjI t1 t2 t3 t4 a f1 f2 f3 f4 f0 b p3 c)
qed

subsection \<open>Integer parameters\<close>

text \<open>
  C4. \<^verbatim>\<open>BigInt\<close> turns the string \<^verbatim>\<open>123456789012345678901234567890\<close> into the
  integer of that value and throws on \<^verbatim>\<open>abc\<close>. Each of the integer parameters
  (\<^verbatim>\<open>amount\<close> of quote, \<^verbatim>\<open>amountA\<close> and \<^verbatim>\<open>amountB\<close> of addLiquidity,
  \<^verbatim>\<open>liquidity\<close> of removeLiquidity) reaches the remote call as that integer when it
  is the first string; when it is \<^verbatim>\<open>abc\<close> the coercion of the item fails with a
  SyntaxError, and under continue-on-fail the run still returns one output item for
  every input item, the one of this item being the failure record of that error.
\<close>

theorem integer_coercion:
  "BigInt ''123456789012345678901234567890'' = Inr 123456789012345678901234567890 \<and>
   BigInt ''abc'' = Inl (SyntaxError ''Cannot convert abc to a BigInt'') \<and>
   (operation p = ''quote'' \<and> amount p = ''123456789012345678901234567890'' \<longrightarrow>
      (\<exists>req net. request E p j = Inr (Quote req net) \<and>
                 q_amount req = 123456789012345678901234567890)) \<and>
   (operation p = ''addLiquidity'' \<and> amountA p = ''123456789012345678901234567890'' \<and>
    BigInt (amountB p) = Inr b \<longrightarrow>
      (\<exists>req net. request E p j = Inr (AddLiquidity req net) \<and>
                 al_amountA req = 123456789012345678901234567890 \<and> al_amountB req = b)) \<and>
   (operation p = ''addLiquidity'' \<and> BigInt (amountA p) = Inr a \<and>
    amountB p = ''123456789012345678901234567890'' \<longrightarrow>
      (\<exists>req net. request E p j = Inr (AddLiquidity req net) \<and>
                 al_amountA req = a \<and> al_amountB req = 123456789012345678901234567890)) \<and>
   (operation p = ''removeLiquidity'' \<and> liquidity p = ''123456789012345678901234567890'' \<longrightarrow>
      (\<exists>req net. request E p j = Inr (RemoveLiquidity req net) \<and>
                 rl_liquidity req = 123456789012345678901234567890)) \<and>
   ((operation p = ''quote'' \<and> amount p = ''abc'') \<or>
    (operation p = ''addLiquidity'' \<and> (amountA p = ''abc'' \<or> amountB p = ''abc'')) \<or>
    (operation p = ''removeLiquidity'' \<and> liquidity p = ''abc'') \<longrightarrow>
      (\<exists>m. request E p j = Inl (SyntaxError m)) \<and>
      (getCredentials this = Inr cr \<and> continueOnFail this \<and> j < length (getInputData this) \<and>
       getNodeParameter this j = p \<longrightarrow>
         (\<exists>out m. fst (execute E newSdk this w) = Inr [out] \<and>
                  length out = length (getInputData this) \<and>
                  out ! j = \<lparr>json = JObj [(''error'', JStr m)], error = Some (SyntaxError m),
                              pairedItem = j\<rparr>)))"
proof (intro conjI impI)
  show "BigInt ''123456789012345678901234567890'' = Inr 123456789012345678901234567890"
    by (rule BigInt_big)
  show "BigInt ''abc'' = Inl (SyntaxError ''Cannot convert abc to a BigInt'')"
    by (rule BigInt_abc)
  show "\<exists>req net. request E p j = Inr (Quote req net) \<and>
                 q_amount req = 123456789012345678901234567890"
    if "operation p = ''quote'' \<and> amount p = ''123456789012345678901234567890''"
    using that by (simp add: request_quote BigInt_big)
  show "\<exists>req net. request E p j = Inr (AddLiquidity req net) \<and>
                 al_amountA req = 123456789012345678901234567890 \<and> al_amountB req = b"
    if "operation p = ''addLiquidity'' \<and> amountA p = ''123456789012345678901234567890'' \<and>
        BigInt (amountB p) = Inr b"
    using that by (simp add: request_addLiquidity BigInt_big)
  show "\<exists>req net. request E p j = Inr (AddLiquidity req net) \<and>
                 al_amountA req = a \<and> al_amountB req = 123456789012345678901234567890"
    if "operation p = ''addLiquidity'' \<and> BigInt (amountA p) = Inr a \<and>
        amountB p = ''123456789012345678901234567890''"
    using that by (simp add: request_addLiquidity BigInt_big)
  show "\<exists>req net. request E p j = Inr (RemoveLiquidity req net) \<and>
                 rl_liquidity req = 123456789012345678901234567890"
    if "operation p = ''removeLiquidity'' \<and> liquidity p = ''123456789012345678901234567890''"
    using that by (simp add: request_removeLiquidity BigInt_big)
next
  assume bad: "(operation p = ''quote'' \<and> amount p = ''abc'') \<or>
    (operation p = ''addLiquidity'' \<and> (amountA p = ''abc'' \<or> amountB p = ''abc'')) \<or>
    (operation p = ''removeLiquidity'' \<and> liquidity p = ''abc'')"
  from bad consider
      (q) "operation p = ''quote''" "amount p = ''abc''"
    | (a) "operation p = ''addLiquidity''" "amountA p = ''abc''"
    | (b) "operation p = ''addLiquidity''" "amountB p = ''abc''"
    | (r) "operation p = ''removeLiquidity''" "liquidity p = ''abc''"
    by blast
  then show fails: "\<exists>m. request E p j = Inl (SyntaxError m)"
  proof cases
    case q
    then show ?thesis by (simp add: request_quote BigInt_abc)
  next
    case a
    then show ?thesis by (simp add: request_addLiquidity BigInt_abc)
  next
    case b
    show ?thesis
    proof (cases "BigInt (amountA p)")
      case (Inl e)
      then show ?thesis
        using b BigInt_error[OF Inl] by (auto simp: request_addLiquidity)
    next
      case (Inr v)
      then show ?thesis
        using b by (simp add: request_addLiquidity BigInt_abc)
    qed
  next
    case r
    then show ?thesis by (simp add: request_removeLiquidity BigInt_abc)
  qed
  then obtain m where m: "request E p j = Inl (SyntaxError m)" by blast
  show "\<exists>out m. fst (execute E newSdk this w) = Inr [out] \<and>
                  length out = length (getInputData this) \<and>
                  out ! j = \<lparr>json = JObj [(''error'', JStr m)], error = Some (SyntaxError m),
                              pairedItem = j\<rparr>"
    if h: "getCredentials this = Inr cr \<and> continueOnFail this \<and> j < length (getInputData this) \<and>
       getNodeParameter this j = p"
  proof -
    from h m have "request E (getNodeParameter this j) j = Inl (SyntaxError m)" by simp
    from failure_recorded[of this cr j E "SyntaxError m" newSdk w, OF _ _ _ this] h
    show ?thesis by auto
  qed
qed

theorem integer_coercion_witness:
  "(\<exists>req net. request exampleLibraries
       (defaults\<lparr>operation := ''quote'', amount := ''123456789012345678901234567890''\<rparr>) 0
         = Inr (Quote req net) \<and>
       q_amount req = 123456789012345678901234567890) \<and>
   (\<exists>req net. request exampleLibraries
       (defaults\<lparr>operation := ''addLiquidity'', amountA := ''123456789012345678901234567890'',
                  amountB := ''7''\<rparr>) 0
         = Inr (AddLiquidity req net) \<and>
       al_amountA req = 123456789012345678901234567890 \<and> al_amountB req = 7) \<and>
   (\<exists>req net. request exampleLibraries
       (defaults\<lparr>operation := ''addLiquidity'', amountA := ''7'',
                  amountB := ''123456789012345678901234567890''\<rparr>) 0
         = Inr (AddLiquidity req net) \<and>
       al_amountA req = 7 \<and> al_amountB req = 123456789012345678901234567890) \<and>
   (\<exists>req net. request exampleLibraries
       (defaults\<lparr>operation := ''removeLiquidity'',
                  liquidity := ''123456789012345678901234567890''\<rparr>) 0
         = Inr (RemoveLiquidity req net) \<and>
       rl_liquidity req = 123456789012345678901234567890) \<and>
   (\<exists>m. request exampleLibraries (exampleItems ! 3) 3 = Inl (SyntaxError m)) \<and>
   (\<exists>out m. fst (execute exampleLibraries exampleSdk (hostOf exampleItems True) []) = Inr [out] \<and>
            length out = length (getInputData (hostOf exampleItems True)) \<and>
            out ! 3 = \<lparr>json = JObj [(''error'', JStr m)], error = Some (SyntaxError m),
                        pairedItem = 3\<rparr>)"
proof -
  let ?big = "''123456789012345678901234567890''"
  let ?q = "defaults\<lparr>operation := ''quote'', amount := ?big\<rparr>"
  let ?a = "defaults\<lparr>operation := ''addLiquidity'', amountA := ?big, amountB := ''7''\<rparr>"
  let ?b = "defaults\<lparr>operation := ''addLiquidity'', amountA := ''7'', amountB := ?big\<rparr>"
  let ?r = "defaults\<lparr>operation := ''removeLiquidity'', liquidity := ?big\<rparr>"
  let ?H = "hostOf exampleItems True"
  have seven: "BigInt ''7'' = Inr 7" by (simp add: builtin_defs)
  have hq: "operation ?q = ''quote'' \<and> amount ?q = ?big" by simp
  have ha: "operation ?a = ''addLiquidity'' \<and> amountA ?a = ?big \<and> BigInt (amountB ?a) = Inr 7"
    using seven by simp
  have hb: "operation ?b = ''addLiquidity'' \<and> BigInt (amountA ?b) = Inr 7 \<and> amountB ?b = ?big"
    using seven by simp
  have hr: "operation ?r = ''removeLiquidity'' \<and> liquidity ?r = ?big" by simp
  have hbad: "(operation (exampleItems ! 3) = ''quote'' \<and> amount (exampleItems ! 3) = ''abc'') \<or>
    (operation (exampleItems ! 3) = ''addLiquidity'' \<and>
       (amountA (exampleItems ! 3) = ''abc'' \<or> amountB (exampleItems ! 3) = ''abc'')) \<or>
    (operation (exampleItems ! 3) = ''removeLiquidity'' \<and> liquidity (exampleItems ! 3) = ''abc'')"
    by (simp add: exampleItems_def)
  have hrun: "getCredentials ?H = Inr exampleCredentials \<and> continueOnFail ?H \<and>
              3 < length (getInputData ?H) \<and> getNodeParameter ?H 3 = exampleItems ! 3"
    by (simp add: hostOf_def exampleItems_def)
  note c2 = conjunct2
  have cq: "\<exists>req net. request exampleLibraries ?q 0 = Inr (Quote req net) \<and>
              q_amount req = 123456789012345678901234567890"
    by (rule integer_coercion[where p = ?q, THEN c2, THEN c2, THEN conjunct1, THEN mp, OF hq])
  have ca: "\<exists>req net. request exampleLibraries ?a 0 = Inr (AddLiquidity req net) \<and>
              al_amountA req = 123456789012345678901234567890 \<and> al_amountB req = 7"
    by (rule integer_coercion[where p = ?a, THEN c2, THEN c2, THEN c2, THEN conjunct1,
                              THEN mp, OF ha])
  have cb: "\<exists>req net. request exampleLibraries ?b 0 = Inr (AddLiquidity req net) \<and>
              al_amountA req = 7 \<and> al_amountB req = 123456789012345678901234567890"
    by (rule integer_coercion[where p = ?b, THEN c2, THEN c2, THEN c2, THEN c2, THEN conjunct1,
                              THEN mp, OF hb])
  have cr: "\<exists>req net. request exampleLibraries ?r 0 = Inr (RemoveLiquidity req net) \<and>
              rl_liquidity req = 123456789012345678901234567890"
    by (rule integer_coercion[where p = ?r, THEN c2, THEN c2, THEN c2, THEN c2, THEN c2,
                              THEN conjunct1, THEN mp, OF hr])
  note bad = integer_coercion[where p = "exampleItems ! 3" and j = 3 and this = ?H
                                and cr = exampleCredentials,
                              THEN c2, THEN c2, THEN c2, THEN c2, THEN c2, THEN c2,
                              THEN mp, OF hbad]
  have cf: "\<exists>m. request exampleLibraries (exampleItems ! 3) 3 = Inl (SyntaxError m)"
    by (rule bad[THEN conjunct1])
  have cx: "\<exists>out m. fst (execute exampleLibraries exampleSdk ?H []) = Inr [out] \<and>
            length out = length (getInputData ?H) \<and>
            out ! 3 = \<lparr>json = JObj [(''error'', JStr m)], error = Some (SyntaxError m),
                        pairedItem = 3\<rparr>"
    by (rule bad[THEN conjunct2, THEN mp, OF hrun])
  show ?thesis
    by (intro conjI cq ca cb cr cf cx)
qed

subsection \<open>Enum parameters\<close>

text \<open>
  C5, as the claim states it, fails: the node validates no enum parameter. An item whose
  network is outside the declared set is dispatched, with the test network, and is a
  success.
\<close>

theorem unrecognized_network_succeeds:
  "network (defaults\<lparr>network := ''DEVNET''\<rparr>) \<notin> {''MAINNET'', ''TESTNET''} \<and>
   execute exampleLibraries exampleSdk (hostOf [defaults\<lparr>network := ''DEVNET''\<rparr>] True) [] =
     (Inr [[\<lparr>json = JStr ''ok'', error = None, pairedItem = 0\<rparr>]], [GetProtocols TESTNET])"
  by (simp add: run_defs)

text \<open>
  C5, amended. No value of an enum parameter makes the coercion of an item fail: whether
  it fails does not depend on \<^verbatim>\<open>network\<close>, \<^verbatim>\<open>tradeType\<close>, \<^verbatim>\<open>protocols\<close>,
  \<^verbatim>\<open>contractName\<close> or \<^verbatim>\<open>assetListName\<close>. A network other than
  \<^verbatim>\<open>MAINNET\<close> is treated as \<^verbatim>\<open>TESTNET\<close>, a trade type other than
  \<^verbatim>\<open>EXACT_IN\<close> as \<^verbatim>\<open>EXACT_OUT\<close>. \<^verbatim>\<open>quote\<close> passes on, for each selected protocol
  name, whatever the property lookup of that name on the protocol enum object yields: a
  member, an inherited property or \<^verbatim>\<open>undefined\<close>. The pool operations pass on each
  name lower-cased; the contract name is passed on as given; a non-empty asset-list name
  is passed on as whatever its property lookup on the asset-list enum object yields, so
  that the call is the one without a list when that is \<^verbatim>\<open>undefined\<close>. The call the
  coercion yields is the remote call the item makes.
\<close>

theorem enum_parameters_unvalidated:
  "(isl (request E (p\<lparr>network := n, tradeType := t, protocols := ps, contractName := c,
                      assetListName := a\<rparr>) j) \<longleftrightarrow> isl (request E p j)) \<and>
   (n \<noteq> ''MAINNET'' \<longrightarrow>
      request E (p\<lparr>network := n\<rparr>) j = request E (p\<lparr>network := ''TESTNET''\<rparr>) j) \<and>
   (t \<noteq> ''EXACT_IN'' \<longrightarrow>
      request E (p\<lparr>tradeType := t\<rparr>) j = request E (p\<lparr>tradeType := ''EXACT_OUT''\<rparr>) j) \<and>
   (operation p = ''quote'' \<and> BigInt (amount p) = Inr v \<longrightarrow>
      (\<exists>req. request E p j = Inr (Quote req (networkOf p)) \<and>
             q_protocols req = map (SupportedProtocols E) (protocols p))) \<and>
   (operation p = ''getPools'' \<longrightarrow>
      request E p j = Inr (GetPools (networkOf p) (map toLowerCase (protocols p)))) \<and>
   (operation p = ''getPoolByTokens'' \<longrightarrow>
      request E p j = Inr (GetPoolByTokens (assetA p) (assetB p) (networkOf p)
                             (map toLowerCase (protocols p)))) \<and>
   (operation p = ''getContractAddress'' \<longrightarrow>
      request E p j = Inr (GetContractAddress (networkOf p) (contractName p))) \<and>
   (operation p = ''getAssetList'' \<and> assetListName p \<noteq> '''' \<longrightarrow>
      request E p j = Inr (GetAssetList (SupportedAssetLists E (assetListName p)))) \<and>
   (\<forall>call. request E p j = Inr call \<longrightarrow>
      tryItem E sdk p j w =
        (case sdk call w of
           (Inl m, w') \<Rightarrow> (Inl (SdkError m), w')
         | (Inr result, w') \<Rightarrow> (Inr result, w')))"
proof (intro conjI impI allI)
  show "isl (request E (p\<lparr>network := n, tradeType := t, protocols := ps, contractName := c,
                      assetListName := a\<rparr>) j) \<longleftrightarrow> isl (request E p j)"
    by (simp add: request_isl)
  show "request E (p\<lparr>network := n\<rparr>) j = request E (p\<lparr>network := ''TESTNET''\<rparr>) j"
    if "n \<noteq> ''MAINNET''" using that by (rule request_network)
  show "request E (p\<lparr>tradeType := t\<rparr>) j = request E (p\<lparr>tradeType := ''EXACT_OUT''\<rparr>) j"
    if "t \<noteq> ''EXACT_IN''" using that by (rule request_tradeType)
  show "\<exists>req. request E p j = Inr (Quote req (networkOf p)) \<and>
             q_protocols req = map (SupportedProtocols E) (protocols p)"
    if "operation p = ''quote'' \<and> BigInt (amount p) = Inr v"
    using that by (simp add: request_quote)
  show "request E p j = Inr (GetPools (networkOf p) (map toLowerCase (protocols p)))"
    if "operation p = ''getPools''" using that by (rule request_getPools)
  show "request E p j = Inr (GetPoolByTokens (assetA p) (assetB p) (networkOf p)
                             (map toLowerCase (protocols p)))"
    if "operation p = ''getPoolByTokens''" using that by (rule request_getPoolByTokens)
  show "request E p j = Inr (GetContractAddress (networkOf p) (contractName p))"
    if "operation p = ''getContractAddress''" using that by (rule request_getContractAddress)
  show "request E p j = Inr (GetAssetList (SupportedAssetLists E (assetListName p)))"
    if "operation p = ''getAssetList'' \<and> assetListName p \<noteq> ''''"
    using that by (simp add: request_getAssetList)
  show "tryItem E sdk p j w =
          (case sdk call w of
             (Inl m, w') \<Rightarrow> (Inl (SdkError m), w')
           | (Inr result, w') \<Rightarrow> (Inr result, w'))"
    if "request E p j = Inr call" for call
    using that by (simp add: tryItem_def)
qed

theorem enum_parameters_unvalidated_witness:
  "(isl (request exampleLibraries
           (defaults\<lparr>network := ''DEVNET'', tradeType := ''EXACT'', protocols := [''UNISWAP''],
                      contractName := ''pair'', assetListName := ''COINGECKO''\<rparr>) 0)
      \<longleftrightarrow> isl (request exampleLibraries defaults 0)) \<and>
   ''DEVNET'' \<noteq> ''MAINNET'' \<and>
   request exampleLibraries (defaults\<lparr>network := ''DEVNET''\<rparr>) 0 = Inr (GetProtocols TESTNET) \<and>
   ''EXACT'' \<noteq> ''EXACT_IN'' \<and>
   (\<exists>req. request exampleLibraries
            (defaults\<lparr>operation := ''quote'', amount := ''5'',
                       protocols := [''SOROSWAP'', ''UNISWAP'', ''toString''],
                       tradeType := ''EXACT''\<rparr>) 0
            = Inr (Quote req MAINNET) \<and>
          q_tradeType req = EXACT_OUT \<and>
          q_protocols req = [Some (Member (JStr ''soroswap'')), None,
                             Some (Inherited ''toString'')]) \<and>
   request exampleLibraries (defaults\<lparr>operation := ''getPools'', protocols := [''Uniswap'']\<rparr>) 0
     = Inr (GetPools MAINNET [''uniswap'']) \<and>
   request exampleLibraries (defaults\<lparr>operation := ''getPoolByTokens'', protocols := [''Uniswap'']\<rparr>) 0
     = Inr (GetPoolByTokens '''' '''' MAINNET [''uniswap'']) \<and>
   request exampleLibraries (defaults\<lparr>operation := ''getContractAddress'', contractName := ''pair''\<rparr>) 0
     = Inr (GetContractAddress MAINNET ''pair'') \<and>
   ''COINGECKO'' \<noteq> '''' \<and>
   request exampleLibraries (defaults\<lparr>operation := ''getAssetList'', assetListName := ''COINGECKO''\<rparr>) 0
     = Inr (GetAssetList None) \<and>
   ''constructor'' \<noteq> '''' \<and>
   request exampleLibraries (defaults\<lparr>operation := ''getAssetList'', assetListName := ''constructor''\<rparr>) 0
     = Inr (GetAssetList (Some (Inherited ''constructor''))) \<and>
   tryItem exampleLibraries (exampleSdk exampleCredentials)
     (defaults\<lparr>operation := ''getAssetList'', assetListName := ''constructor''\<rparr>) 0 []
     = (Inr (JStr ''ok''), [GetAssetList (Some (Inherited ''constructor''))])"
proof -
  note c2 = conjunct2
  let ?base = "defaults\<lparr>operation := ''quote'', amount := ''5'',
                       protocols := [''SOROSWAP'', ''UNISWAP'', ''toString'']\<rparr>"
  let ?q = "?base\<lparr>tradeType := ''EXACT''\<rparr>"
  let ?pools = "defaults\<lparr>operation := ''getPools'', protocols := [''Uniswap'']\<rparr>"
  let ?pool = "defaults\<lparr>operation := ''getPoolByTokens'', protocols := [''Uniswap'']\<rparr>"
  let ?ca = "defaults\<lparr>operation := ''getContractAddress'', contractName := ''pair''\<rparr>"
  let ?al = "defaults\<lparr>operation := ''getAssetList'', assetListName := ''COINGECKO''\<rparr>"
  let ?ih = "defaults\<lparr>operation := ''getAssetList'', assetListName := ''constructor''\<rparr>"
  have five: "BigInt ''5'' = Inr 5" by (simp add: builtin_defs)
  have a: "isl (request exampleLibraries
           (defaults\<lparr>network := ''DEVNET'', tradeType := ''EXACT'', protocols := [''UNISWAP''],
                      contractName := ''pair'', assetListName := ''COINGECKO''\<rparr>) 0)
      \<longleftrightarrow> isl (request exampleLibraries defaults 0)"
    by (rule enum_parameters_unvalidated[THEN conjunct1])
  have n: "''DEVNET'' \<noteq> ''MAINNET''" by simp
  have b: "request exampleLibraries (defaults\<lparr>network := ''DEVNET''\<rparr>) 0 = Inr (GetProtocols TESTNET)"
    using enum_parameters_unvalidated[where p = defaults and n = "''DEVNET''" and E = exampleLibraries
            and j = 0, THEN c2, THEN conjunct1, THEN mp, OF n]
    by (simp add: request_def defaults_def)
  have t: "''EXACT'' \<noteq> ''EXACT_IN''" by simp
  have hq: "operation ?q = ''quote'' \<and> BigInt (amount ?q) = Inr 5" using five by simp
  have tt: "request exampleLibraries ?q 0 = request exampleLibraries (?base\<lparr>tradeType := ''EXACT_OUT''\<rparr>) 0"
    by (rule enum_parameters_unvalidated[where p = ?base and t = "''EXACT''",
               THEN c2, THEN c2, THEN conjunct1, THEN mp, OF t])
  have c: "\<exists>req. request exampleLibraries ?q 0 = Inr (Quote req MAINNET) \<and>
          q_tradeType req = EXACT_OUT \<and>
          q_protocols req = [Some (Member (JStr ''soroswap'')), None,
                             Some (Inherited ''toString'')]"
    using enum_parameters_unvalidated[where p = ?q and E = exampleLibraries and j = 0,
            THEN c2, THEN c2, THEN c2, THEN conjunct1, THEN mp, OF hq] tt
    by (auto simp: defaults_def exampleLibraries_def request_quote five)
  have hpools: "operation ?pools = ''getPools''" by simp
  have d: "request exampleLibraries ?pools 0 = Inr (GetPools MAINNET [''uniswap''])"
    using enum_parameters_unvalidated[where p = ?pools and E = exampleLibraries and j = 0,
            THEN c2, THEN c2, THEN c2, THEN c2, THEN conjunct1, THEN mp, OF hpools]
    by (simp add: defaults_def builtin_defs)
  have hpool: "operation ?pool = ''getPoolByTokens''" by simp
  have e: "request exampleLibraries ?pool 0 = Inr (GetPoolByTokens '''' '''' MAINNET [''uniswap''])"
    using enum_parameters_unvalidated[where p = ?pool and E = exampleLibraries and j = 0,
            THEN c2, THEN c2, THEN c2, THEN c2, THEN c2, THEN conjunct1, THEN mp, OF hpool]
    by (simp add: defaults_def builtin_defs)
  have hca: "operation ?ca = ''getContractAddress''" by simp
  have f: "request exampleLibraries ?ca 0 = Inr (GetContractAddress MAINNET ''pair'')"
    using enum_parameters_unvalidated[where p = ?ca and E = exampleLibraries and j = 0,
            THEN c2, THEN c2, THEN c2, THEN c2, THEN c2, THEN c2, THEN conjunct1, THEN mp, OF hca]
    by (simp add: defaults_def)
  have ne1: "''COINGECKO'' \<noteq> ''''" by simp
  have hal: "operation ?al = ''getAssetList'' \<and> assetListName ?al \<noteq> ''''" by simp
  have g: "request exampleLibraries ?al 0 = Inr (GetAssetList None)"
    using enum_parameters_unvalidated[where p = ?al and E = exampleLibraries and j = 0,
            THEN c2, THEN c2, THEN c2, THEN c2, THEN c2, THEN c2, THEN c2, THEN conjunct1,
            THEN mp, OF hal]
    by (simp add: exampleLibraries_def)
  have ne2: "''constructor'' \<noteq> ''''" by simp
  have hih: "operation ?ih = ''getAssetList'' \<and> assetListName ?ih \<noteq> ''''" by simp
  note ih = enum_parameters_unvalidated[where p = ?ih and E = exampleLibraries and j = 0
              and sdk = "exampleSdk exampleCredentials" and w = "[]",
              THEN c2, THEN c2, THEN c2, THEN c2, THEN c2, THEN c2, THEN c2]
  have h: "request exampleLibraries ?ih 0 = Inr (GetAssetList (Some (Inherited ''constructor'')))"
    using ih[THEN conjunct1, THEN mp, OF hih] by (simp add: exampleLibraries_def)
  have i: "tryItem exampleLibraries (exampleSdk exampleCredentials) ?ih 0 []
             = (Inr (JStr ''ok''), [GetAssetList (Some (Inherited ''constructor''))])"
    using ih[THEN conjunct2, THEN spec, THEN mp, OF h] by (simp add: exampleSdk_def)
  show ?thesis
    by (intro conjI a n b t c d e f ne1 g ne2 h i)
qed

subsection \<open>Protocol names\<close>

text \<open>
  C6. For \<^verbatim>\<open>getPools\<close> and \<^verbatim>\<open>getPoolByTokens\<close> the remote call the item makes
  carries every selected protocol name passed through \<^verbatim>\<open>toLowerCase\<close>, so the
  selection SOROSWAP, AQUA is transmitted as soroswap, aqua. For \<^verbatim>\<open>quote\<close> the
  remote call carries, for each selected name, what the protocol enum has under that
  name, as the enum has it.
\<close>

theorem protocol_casing:
  "(operation p = ''getPools'' \<longrightarrow>
      request E p j = Inr (GetPools (networkOf p) (map toLowerCase (protocols p))) \<and>
      tryItem E sdk p j w =
        (case sdk (GetPools (networkOf p) (map toLowerCase (protocols p))) w of
           (Inl m, w') \<Rightarrow> (Inl (SdkError m), w')
         | (Inr result, w') \<Rightarrow> (Inr result, w'))) \<and>
   (operation p = ''getPoolByTokens'' \<longrightarrow>
      request E p j = Inr (GetPoolByTokens (assetA p) (assetB p) (networkOf p)
                             (map toLowerCase (protocols p))) \<and>
      tryItem E sdk p j w =
        (case sdk (GetPoolByTokens (assetA p) (assetB p) (networkOf p)
                     (map toLowerCase (protocols p))) w of
           (Inl m, w') \<Rightarrow> (Inl (SdkError m), w')
         | (Inr result, w') \<Rightarrow> (Inr result, w'))) \<and>
   (operation p = ''quote'' \<longrightarrow>
      (\<forall>c. request E p j = Inr c \<longrightarrow>
         (\<exists>req net. c = Quote req net \<and>
                    q_protocols req = map (SupportedProtocols E) (protocols p))) \<and>
      (\<forall>v. BigInt (amount p) = Inr v \<longrightarrow>
         (\<exists>c. request E p j = Inr c) \<and>
         tryItem E sdk p j w =
           (case sdk (Quote \<lparr>q_assetIn = assetIn p, q_assetOut = assetOut p, q_amount = v,
                             q_tradeType = tradeTypeOf p,
                             q_protocols = map (SupportedProtocols E) (protocols p)\<rparr>
                        (networkOf p)) w of
              (Inl m, w') \<Rightarrow> (Inl (SdkError m), w')
            | (Inr result, w') \<Rightarrow> (Inr result, w')))) \<and>
   map toLowerCase [''SOROSWAP'', ''AQUA''] = [''soroswap'', ''aqua'']"
proof (intro conjI impI allI)
  show "request E p j = Inr (GetPools (networkOf p) (map toLowerCase (protocols p)))"
    if "operation p = ''getPools''" using that by (rule request_getPools)
  show "tryItem E sdk p j w =
        (case sdk (GetPools (networkOf p) (map toLowerCase (protocols p))) w of
           (Inl m, w') \<Rightarrow> (Inl (SdkError m), w')
         | (Inr result, w') \<Rightarrow> (Inr result, w'))"
    if "operation p = ''getPools''"
    using request_getPools[OF that] by (simp add: tryItem_def)
  show "request E p j = Inr (GetPoolByTokens (assetA p) (assetB p) (networkOf p)
                             (map toLowerCase (protocols p)))"
    if "operation p = ''getPoolByTokens''" using that by (rule request_getPoolByTokens)
  show "tryItem E sdk p j w =
        (case sdk (GetPoolByTokens (assetA p) (assetB p) (networkOf p)
                     (map toLowerCase (protocols p))) w of
           (Inl m, w') \<Rightarrow> (Inl (SdkError m), w')
         | (Inr result, w') \<Rightarrow> (Inr result, w'))"
    if "operation p = ''getPoolByTokens''"
    using request_getPoolByTokens[OF that] by (simp add: tryItem_def)
  show "\<exists>req net. c = Quote req net \<and>
                    q_protocols req = map (SupportedProtocols E) (protocols p)"
    if "operation p = ''quote''" and "request E p j = Inr c" for c
    using that by (auto simp: request_quote split: sum.splits)
  show "\<exists>c. request E p j = Inr c"
    if "operation p = ''quote''" and "BigInt (amount p) = Inr v" for v
    using that by (simp add: request_quote)
  show "tryItem E sdk p j w =
           (case sdk (Quote \<lparr>q_assetIn = assetIn p, q_assetOut = assetOut p, q_amount = v,
                             q_tradeType = tradeTypeOf p,
                             q_protocols = map (SupportedProtocols E) (protocols p)\<rparr>
                        (networkOf p)) w of
              (Inl m, w') \<Rightarrow> (Inl (SdkError m), w')
            | (Inr result, w') \<Rightarrow> (Inr result, w'))"
    if "operation p = ''quote''" and "BigInt (amount p) = Inr v" for v
    using that by (simp add: tryItem_def request_quote)
  show "map toLowerCase [''SOROSWAP'', ''AQUA''] = [''soroswap'', ''aqua'']"
    by (simp add: builtin_defs)
qed

theorem protocol_casing_witness:
  "operation (defaults\<lparr>operation := ''getPools'', protocols := [''SOROSWAP'', ''AQUA'']\<rparr>)
     = ''getPools'' \<and>
   request exampleLibraries
     (defaults\<lparr>operation := ''getPools'', protocols := [''SOROSWAP'', ''AQUA'']\<rparr>) 0
     = Inr (GetPools MAINNET [''soroswap'', ''aqua'']) \<and>
   tryItem exampleLibraries (exampleSdk exampleCredentials)
     (defaults\<lparr>operation := ''getPools'', protocols := [''SOROSWAP'', ''AQUA'']\<rparr>) 0 []
     = (Inr (JStr ''ok''), [GetPools MAINNET [''soroswap'', ''aqua'']]) \<and>
   request exampleLibraries
     (defaults\<lparr>operation := ''getPoolByTokens'', assetA := ''CA'', assetB := ''CB'',
                protocols := [''SOROSWAP'', ''AQUA'']\<rparr>) 0
     = Inr (GetPoolByTokens ''CA'' ''CB'' MAINNET [''soroswap'', ''aqua'']) \<and>
   tryItem exampleLibraries (exampleSdk exampleCredentials)
     (defaults\<lparr>operation := ''getPoolByTokens'', assetA := ''CA'', assetB := ''CB'',
                protocols := [''SOROSWAP'', ''AQUA'']\<rparr>) 0 []
     = (Inr (JStr ''ok''), [GetPoolByTokens ''CA'' ''CB'' MAINNET [''soroswap'', ''aqua'']]) \<and>
   (\<exists>req net. request exampleLibraries
       (defaults\<lparr>operation := ''quote'', amount := ''5'', protocols := [''SOROSWAP'', ''AQUA'']\<rparr>) 0
         = Inr (Quote req net) \<and>
       q_protocols req = [SupportedProtocols exampleLibraries ''SOROSWAP'',
                          SupportedProtocols exampleLibraries ''AQUA'']) \<and>
   tryItem exampleLibraries (exampleSdk exampleCredentials)
     (defaults\<lparr>operation := ''quote'', amount := ''5'', protocols := [''SOROSWAP'', ''AQUA'']\<rparr>) 0 []
     = (Inr (JStr ''ok''),
        [Quote \<lparr>q_assetIn = '''', q_assetOut = '''', q_amount = 5, q_tradeType = EXACT_IN,
                q_protocols = [Some (Member (JStr ''soroswap'')), Some (Member (JStr ''aqua''))]\<rparr>
           MAINNET])"
proof -
  note c2 = conjunct2
  let ?pools = "defaults\<lparr>operation := ''getPools'', protocols := [''SOROSWAP'', ''AQUA'']\<rparr>"
  let ?pool = "defaults\<lparr>operation := ''getPoolByTokens'', assetA := ''CA'', assetB := ''CB'',
                protocols := [''SOROSWAP'', ''AQUA'']\<rparr>"
  let ?q = "defaults\<lparr>operation := ''quote'', amount := ''5'', protocols := [''SOROSWAP'', ''AQUA'']\<rparr>"
  let ?sdk = "exampleSdk exampleCredentials"
  have lower: "map toLowerCase [''SOROSWAP'', ''AQUA''] = [''soroswap'', ''aqua'']"
    by (rule protocol_casing[THEN c2, THEN c2, THEN c2])
  have hpools: "operation ?pools = ''getPools''" by simp
  note pools = protocol_casing[where p = ?pools and E = exampleLibraries and j = 0
                 and sdk = ?sdk and w = "[]", THEN conjunct1, THEN mp, OF hpools]
  have a: "request exampleLibraries ?pools 0 = Inr (GetPools MAINNET [''soroswap'', ''aqua''])"
    using pools[THEN conjunct1] lower by (simp add: defaults_def)
  have a': "tryItem exampleLibraries ?sdk ?pools 0 []
              = (Inr (JStr ''ok''), [GetPools MAINNET [''soroswap'', ''aqua'']])"
    using pools[THEN conjunct2] lower by (simp add: defaults_def exampleSdk_def)
  have hpool: "operation ?pool = ''getPoolByTokens''" by simp
  note pool = protocol_casing[where p = ?pool and E = exampleLibraries and j = 0
                and sdk = ?sdk and w = "[]", THEN c2, THEN conjunct1, THEN mp, OF hpool]
  have b: "request exampleLibraries ?pool 0
             = Inr (GetPoolByTokens ''CA'' ''CB'' MAINNET [''soroswap'', ''aqua''])"
    using pool[THEN conjunct1] lower by (simp add: defaults_def)
  have b': "tryItem exampleLibraries ?sdk ?pool 0 []
              = (Inr (JStr ''ok''), [GetPoolByTokens ''CA'' ''CB'' MAINNET [''soroswap'', ''aqua'']])"
    using pool[THEN conjunct2] lower by (simp add: defaults_def exampleSdk_def)
  have hq: "operation ?q = ''quote''" by simp
  have five: "BigInt (amount ?q) = Inr 5" by (simp add: builtin_defs)
  note q = protocol_casing[where p = ?q and E = exampleLibraries and j = 0
             and sdk = ?sdk and w = "[]", THEN c2, THEN c2, THEN conjunct1, THEN mp, OF hq]
  note qv = q[THEN conjunct2, THEN spec, THEN mp, OF five]
  from qv[THEN conjunct1]
  obtain c where c: "request exampleLibraries ?q 0 = Inr c" by blast
  from q[THEN conjunct1, THEN spec, THEN mp, OF c] c
  have d: "\<exists>req net. request exampleLibraries ?q 0 = Inr (Quote req net) \<and>
       q_protocols req = [SupportedProtocols exampleLibraries ''SOROSWAP'',
                          SupportedProtocols exampleLibraries ''AQUA'']"
    by auto
  have d': "tryItem exampleLibraries ?sdk ?q 0 []
     = (Inr (JStr ''ok''),
        [Quote \<lparr>q_assetIn = '''', q_assetOut = '''', q_amount = 5, q_tradeType = EXACT_IN,
                q_protocols = [Some (Member (JStr ''soroswap'')), Some (Member (JStr ''aqua''))]\<rparr>
           MAINNET])"
    using qv[THEN conjunct2] by (simp add: defaults_def exampleSdk_def exampleLibraries_def)
  show ?thesis
    by (intro conjI hpools a a' b b' d d')
qed

subsection \<open>The assets of getPrice\<close>

text \<open>
  C7. For \<^verbatim>\<open>getPrice\<close> the \<^verbatim>\<open>assets\<close> string is split at every comma and each
  segment is trimmed; the remote call the item makes carries a list of exactly one
  segment as that one string, a longer list as the list; a string without a comma is passed as the one
  string it is, trimmed. The string \<^verbatim>\<open>A, B ,C\<close> gives A, B, C. The
  split is what the words say: one segment more than there are commas, no comma inside a
  segment, and the segments joined by commas are the string again; a trimmed segment is
  the segment without the white space at its two ends.
\<close>

theorem comma_list:
  "(operation p = ''getPrice'' \<longrightarrow>
      (let assetsList = map trim (split CHR '','' (assets p))
       in (length assetsList = 1 \<longrightarrow>
             request E p j = Inr (GetPrice (SingleAsset (hd assetsList)) (networkOf p)) \<and>
             tryItem E sdk p j w =
               (case sdk (GetPrice (SingleAsset (hd assetsList)) (networkOf p)) w of
                  (Inl m, w') \<Rightarrow> (Inl (SdkError m), w')
                | (Inr result, w') \<Rightarrow> (Inr result, w'))) \<and>
          (length assetsList \<noteq> 1 \<longrightarrow>
             1 < length assetsList \<and>
             request E p j = Inr (GetPrice (AssetArray assetsList) (networkOf p)) \<and>
             tryItem E sdk p j w =
               (case sdk (GetPrice (AssetArray assetsList) (networkOf p)) w of
                  (Inl m, w') \<Rightarrow> (Inl (SdkError m), w')
                | (Inr result, w') \<Rightarrow> (Inr result, w'))))) \<and>
   map trim (split CHR '','' ''A, B ,C'') = [''A'', ''B'', ''C''] \<and>
   length (split CHR '','' s) = Suc (count_list s CHR '','') \<and>
   join CHR '','' (split CHR '','' s) = s \<and>
   (\<forall>seg\<in>set (split CHR '','' s). CHR '','' \<notin> set seg) \<and>
   (\<exists>l r. s = l @ trim s @ r \<and> (\<forall>c\<in>set l. isWhiteSpace c) \<and> (\<forall>c\<in>set r. isWhiteSpace c)) \<and>
   (trim s \<noteq> [] \<longrightarrow> \<not> isWhiteSpace (hd (trim s)) \<and> \<not> isWhiteSpace (last (trim s))) \<and>
   (operation p = ''getPrice'' \<and> CHR '','' \<notin> set (assets p) \<longrightarrow>
      request E p j = Inr (GetPrice (SingleAsset (trim (assets p))) (networkOf p)) \<and>
      tryItem E sdk p j w =
        (case sdk (GetPrice (SingleAsset (trim (assets p))) (networkOf p)) w of
           (Inl m, w') \<Rightarrow> (Inl (SdkError m), w')
         | (Inr result, w') \<Rightarrow> (Inr result, w')))"
proof (intro conjI impI)
  show nocomma: "request E p j = Inr (GetPrice (SingleAsset (trim (assets p))) (networkOf p))"
    if "operation p = ''getPrice'' \<and> CHR '','' \<notin> set (assets p)"
    using that by (simp add: request_getPrice split_no_separator)
  show "tryItem E sdk p j w =
        (case sdk (GetPrice (SingleAsset (trim (assets p))) (networkOf p)) w of
           (Inl m, w') \<Rightarrow> (Inl (SdkError m), w')
         | (Inr result, w') \<Rightarrow> (Inr result, w'))"
    if "operation p = ''getPrice'' \<and> CHR '','' \<notin> set (assets p)"
    using nocomma[OF that] by (simp add: tryItem_def)
  show "let assetsList = map trim (split CHR '','' (assets p))
       in (length assetsList = 1 \<longrightarrow>
             request E p j = Inr (GetPrice (SingleAsset (hd assetsList)) (networkOf p)) \<and>
             tryItem E sdk p j w =
               (case sdk (GetPrice (SingleAsset (hd assetsList)) (networkOf p)) w of
                  (Inl m, w') \<Rightarrow> (Inl (SdkError m), w')
                | (Inr result, w') \<Rightarrow> (Inr result, w'))) \<and>
          (length assetsList \<noteq> 1 \<longrightarrow>
             1 < length assetsList \<and>
             request E p j = Inr (GetPrice (AssetArray assetsList) (networkOf p)) \<and>
             tryItem E sdk p j w =
               (case sdk (GetPrice (AssetArray assetsList) (networkOf p)) w of
                  (Inl m, w') \<Rightarrow> (Inl (SdkError m), w')
                | (Inr result, w') \<Rightarrow> (Inr result, w')))"
    if op: "operation p = ''getPrice''"
  proof -
    have ne: "map trim (split CHR '','' (assets p)) \<noteq> []"
      by (simp add: split_nonempty)
    then have "hd (map trim (split CHR '','' (assets p))) = map trim (split CHR '','' (assets p)) ! 0"
      by (rule hd_conv_nth)
    moreover have "0 < length (map trim (split CHR '','' (assets p)))"
      using ne by simp
    ultimately show ?thesis
      using length_split[of "CHR '',''" "assets p"]
      unfolding Let_def tryItem_def request_getPrice[OF op]
      by auto
  qed
  show "map trim (split CHR '','' ''A, B ,C'') = [''A'', ''B'', ''C'']"
    by (simp add: trim_def isWhiteSpace_def)
  show "length (split CHR '','' s) = Suc (count_list s CHR '','')"
    by (rule length_split)
  show "join CHR '','' (split CHR '','' s) = s"
    by (rule join_split)
  show "\<forall>seg\<in>set (split CHR '','' s). CHR '','' \<notin> set seg"
    by (simp add: split_no_sep)
  show "\<exists>l r. s = l @ trim s @ r \<and> (\<forall>c\<in>set l. isWhiteSpace c) \<and> (\<forall>c\<in>set r. isWhiteSpace c)"
    by (rule trim_decompose)
  show "\<not> isWhiteSpace (hd (trim s))" if "trim s \<noteq> []"
    using trim_ends[OF that] by simp
  show "\<not> isWhiteSpace (last (trim s))" if "trim s \<noteq> []"
    using trim_ends[OF that] by simp
qed

theorem comma_list_witness:
  "operation (defaults\<lparr>operation := ''getPrice'', assets := ''A, B ,C''\<rparr>) = ''getPrice'' \<and>
   length (map trim (split CHR '','' ''A, B ,C'')) \<noteq> 1 \<and>
   request exampleLibraries (defaults\<lparr>operation := ''getPrice'', assets := ''A, B ,C''\<rparr>) 0
     = Inr (GetPrice (AssetArray [''A'', ''B'', ''C'']) MAINNET) \<and>
   tryItem exampleLibraries (exampleSdk exampleCredentials)
     (defaults\<lparr>operation := ''getPrice'', assets := ''A, B ,C''\<rparr>) 0 []
     = (Inr (JStr ''ok''), [GetPrice (AssetArray [''A'', ''B'', ''C'']) MAINNET]) \<and>
   length (map trim (split CHR '','' '' XLM '')) = 1 \<and>
   request exampleLibraries (defaults\<lparr>operation := ''getPrice'', assets := '' XLM ''\<rparr>) 0
     = Inr (GetPrice (SingleAsset ''XLM'') MAINNET) \<and>
   tryItem exampleLibraries (exampleSdk exampleCredentials)
     (defaults\<lparr>operation := ''getPrice'', assets := '' XLM ''\<rparr>) 0 []
     = (Inr (JStr ''ok''), [GetPrice (SingleAsset ''XLM'') MAINNET]) \<and>
   length (split CHR '','' ''A, B ,C'') = Suc (count_list ''A, B ,C'' CHR '','') \<and>
   join CHR '','' (split CHR '','' ''A, B ,C'') = ''A, B ,C'' \<and>
   '' B '' \<in> set (split CHR '','' ''A, B ,C'') \<and> CHR '','' \<notin> set '' B '' \<and>
   trim '' XLM '' \<noteq> [] \<and>
   \<not> isWhiteSpace (hd (trim '' XLM '')) \<and> \<not> isWhiteSpace (last (trim '' XLM '')) \<and>
   CHR '','' \<notin> set '' XLM '' \<and>
   request exampleLibraries (defaults\<lparr>operation := ''getPrice'', assets := '' XLM ''\<rparr>) 0
     = Inr (GetPrice (SingleAsset (trim '' XLM '')) MAINNET)"
proof -
  note c2 = conjunct2
  let ?many = "defaults\<lparr>operation := ''getPrice'', assets := ''A, B ,C''\<rparr>"
  let ?one = "defaults\<lparr>operation := ''getPrice'', assets := '' XLM ''\<rparr>"
  have hm: "operation ?many = ''getPrice''" by simp
  have ho: "operation ?one = ''getPrice''" by simp
  have abc: "map trim (split CHR '','' ''A, B ,C'') = [''A'', ''B'', ''C'']"
    by (rule comma_list[THEN c2, THEN conjunct1])
  have xlm: "map trim (split CHR '','' '' XLM '') = [''XLM'']"
    by (simp add: trim_def isWhiteSpace_def)
  have lm: "length (map trim (split CHR '','' ''A, B ,C'')) \<noteq> 1"
    by (simp only: abc) simp
  have lo: "length (map trim (split CHR '','' '' XLM '')) = 1"
    by (simp only: xlm) simp
  note many = comma_list[where p = ?many and E = exampleLibraries and j = 0
                and sdk = "exampleSdk exampleCredentials" and w = "[]",
                THEN conjunct1, THEN mp, OF hm]
  note one = comma_list[where p = ?one and E = exampleLibraries and j = 0
               and sdk = "exampleSdk exampleCredentials" and w = "[]",
               THEN conjunct1, THEN mp, OF ho]
  have a: "request exampleLibraries ?many 0 = Inr (GetPrice (AssetArray [''A'', ''B'', ''C'']) MAINNET)"
    using many abc by (simp add: Let_def defaults_def)
  have a': "tryItem exampleLibraries (exampleSdk exampleCredentials) ?many 0 []
              = (Inr (JStr ''ok''), [GetPrice (AssetArray [''A'', ''B'', ''C'']) MAINNET])"
    using many abc by (simp add: Let_def defaults_def exampleSdk_def)
  have b: "request exampleLibraries ?one 0 = Inr (GetPrice (SingleAsset ''XLM'') MAINNET)"
    using one xlm by (simp add: Let_def defaults_def)
  have b': "tryItem exampleLibraries (exampleSdk exampleCredentials) ?one 0 []
              = (Inr (JStr ''ok''), [GetPrice (SingleAsset ''XLM'') MAINNET])"
    using one xlm by (simp add: Let_def defaults_def exampleSdk_def)
  note rest = comma_list[where s = "''A, B ,C''", THEN c2, THEN c2]
  have c: "length (split CHR '','' ''A, B ,C'') = Suc (count_list ''A, B ,C'' CHR '','')"
    by (rule rest[THEN conjunct1])
  have d: "join CHR '','' (split CHR '','' ''A, B ,C'') = ''A, B ,C''"
    by (rule rest[THEN c2, THEN conjunct1])
  have m: "'' B '' \<in> set (split CHR '','' ''A, B ,C'')"
    by simp
  have e: "CHR '','' \<notin> set '' B ''"
    by (rule rest[THEN c2, THEN c2, THEN conjunct1, THEN bspec, OF m])
  have ne: "trim '' XLM '' \<noteq> []"
    by (simp add: trim_def isWhiteSpace_def)
  note ends = comma_list[where s = "'' XLM ''", THEN c2, THEN c2, THEN c2, THEN c2, THEN c2,
                         THEN c2, THEN conjunct1, THEN mp, OF ne]
  have nc: "operation ?one = ''getPrice'' \<and> CHR '','' \<notin> set (assets ?one)"
    by simp
  have f: "request exampleLibraries ?one 0 = Inr (GetPrice (SingleAsset (trim '' XLM '')) MAINNET)"
    using comma_list[where p = ?one and E = exampleLibraries and j = 0, THEN c2, THEN c2, THEN c2,
                     THEN c2, THEN c2, THEN c2, THEN c2, THEN mp, OF nc, THEN conjunct1]
    by (simp add: defaults_def)
  show ?thesis
    by (intro conjI hm lm a a' lo b b' c d m e ne ends[THEN conjunct1] ends[THEN conjunct2] f) simp
qed

subsection \<open>The minimum amounts of removeLiquidity\<close>

text \<open>
  C8. For an item of operation \<^verbatim>\<open>removeLiquidity\<close>, the call the node makes is a
  remove-liquidity call whose \<^verbatim>\<open>amountA\<close> and \<^verbatim>\<open>amountB\<close> are the integer 0 and
  whose \<^verbatim>\<open>liquidity\<close> is the \<^verbatim>\<open>BigInt\<close> of the item's \<^verbatim>\<open>liquidity\<close>
  parameter; the item's own \<^verbatim>\<open>amountA\<close> and \<^verbatim>\<open>amountB\<close> parameters have no
  influence on it.
\<close>

theorem remove_liquidity_minimums:
  assumes "operation p = ''removeLiquidity''"
  shows "(\<forall>l. BigInt (liquidity p) = Inr l \<longrightarrow>
            request E p j =
              Inr (RemoveLiquidity \<lparr>rl_assetA = assetA p, rl_assetB = assetB p, rl_liquidity = l,
                                     rl_amountA = 0, rl_amountB = 0, rl_to = to_address p\<rparr>
                     (networkOf p))) \<and>
         (\<forall>c. request E p j = Inr c \<longrightarrow>
            (\<exists>req net. c = RemoveLiquidity req net \<and> rl_amountA req = 0 \<and> rl_amountB req = 0 \<and>
                       BigInt (liquidity p) = Inr (rl_liquidity req))) \<and>
         request E (p\<lparr>amountA := x, amountB := y\<rparr>) j = request E p j \<and>
         (\<forall>l. BigInt (liquidity p) = Inr l \<longrightarrow>
            tryItem E sdk p j w =
              (case sdk (RemoveLiquidity \<lparr>rl_assetA = assetA p, rl_assetB = assetB p,
                                          rl_liquidity = l, rl_amountA = 0, rl_amountB = 0,
                                          rl_to = to_address p\<rparr> (networkOf p)) w of
                 (Inl m, w') \<Rightarrow> (Inl (SdkError m), w')
               | (Inr result, w') \<Rightarrow> (Inr result, w')))"
proof (intro conjI allI impI)
  show "tryItem E sdk p j w =
          (case sdk (RemoveLiquidity \<lparr>rl_assetA = assetA p, rl_assetB = assetB p,
                                      rl_liquidity = l, rl_amountA = 0, rl_amountB = 0,
                                      rl_to = to_address p\<rparr> (networkOf p)) w of
             (Inl m, w') \<Rightarrow> (Inl (SdkError m), w')
           | (Inr result, w') \<Rightarrow> (Inr result, w'))"
    if "BigInt (liquidity p) = Inr l" for l
    using assms that by (simp add: tryItem_def request_removeLiquidity)
  show "request E p j =
          Inr (RemoveLiquidity \<lparr>rl_assetA = assetA p, rl_assetB = assetB p, rl_liquidity = l,
                                 rl_amountA = 0, rl_amountB = 0, rl_to = to_address p\<rparr>
                 (networkOf p))"
    if "BigInt (liquidity p) = Inr l" for l
    using assms that by (simp add: request_removeLiquidity)
  show "\<exists>req net. c = RemoveLiquidity req net \<and> rl_amountA req = 0 \<and> rl_amountB req = 0 \<and>
                   BigInt (liquidity p) = Inr (rl_liquidity req)"
    if "request E p j = Inr c" for c
    using assms that by (auto simp: request_removeLiquidity split: sum.splits)
  show "request E (p\<lparr>amountA := x, amountB := y\<rparr>) j = request E p j"
    using assms by (rule request_ignores_minimums)
qed

theorem remove_liquidity_minimums_witness:
  "operation (defaults\<lparr>operation := ''removeLiquidity'', liquidity := ''500''\<rparr>)
     = ''removeLiquidity'' \<and>
   BigInt (liquidity (defaults\<lparr>operation := ''removeLiquidity'', liquidity := ''500''\<rparr>)) = Inr 500 \<and>
   request exampleLibraries (defaults\<lparr>operation := ''removeLiquidity'', liquidity := ''500''\<rparr>) 0 =
     Inr (RemoveLiquidity \<lparr>rl_assetA = '''', rl_assetB = '''', rl_liquidity = 500,
                            rl_amountA = 0, rl_amountB = 0, rl_to = ''''\<rparr> MAINNET) \<and>
   request exampleLibraries
     (defaults\<lparr>operation := ''removeLiquidity'', liquidity := ''500'', amountA := ''9'',
                amountB := ''9''\<rparr>) 0 =
     Inr (RemoveLiquidity \<lparr>rl_assetA = '''', rl_assetB = '''', rl_liquidity = 500,
                            rl_amountA = 0, rl_amountB = 0, rl_to = ''''\<rparr> MAINNET) \<and>
   tryItem exampleLibraries (exampleSdk exampleCredentials)
     (defaults\<lparr>operation := ''removeLiquidity'', liquidity := ''500''\<rparr>) 0 [] =
     (Inr (JStr ''ok''),
      [RemoveLiquidity \<lparr>rl_assetA = '''', rl_assetB = '''', rl_liquidity = 500,
                        rl_amountA = 0, rl_amountB = 0, rl_to = ''''\<rparr> MAINNET])"
proof -
  let ?p = "defaults\<lparr>operation := ''removeLiquidity'', liquidity := ''500''\<rparr>"
  have h: "operation ?p = ''removeLiquidity''" by simp
  have l: "BigInt (liquidity ?p) = Inr 500" by (simp add: builtin_defs)
  note t = remove_liquidity_minimums[where p = ?p and E = exampleLibraries and j = 0, OF h]
  have a: "request exampleLibraries ?p 0 =
     Inr (RemoveLiquidity \<lparr>rl_assetA = '''', rl_assetB = '''', rl_liquidity = 500,
                            rl_amountA = 0, rl_amountB = 0, rl_to = ''''\<rparr> MAINNET)"
    using t[THEN conjunct1, THEN spec, THEN mp, OF l] by (simp add: defaults_def)
  have b: "request exampleLibraries (?p\<lparr>amountA := ''9'', amountB := ''9''\<rparr>) 0 =
     Inr (RemoveLiquidity \<lparr>rl_assetA = '''', rl_assetB = '''', rl_liquidity = 500,
                            rl_amountA = 0, rl_amountB = 0, rl_to = ''''\<rparr> MAINNET)"
    using t[where x = "''9''" and y = "''9''", THEN conjunct2, THEN conjunct2, THEN conjunct1] a
    by simp
  have c: "tryItem exampleLibraries (exampleSdk exampleCredentials) ?p 0 [] =
     (Inr (JStr ''ok''),
      [RemoveLiquidity \<lparr>rl_assetA = '''', rl_assetB = '''', rl_liquidity = 500,
                        rl_amountA = 0, rl_amountB = 0, rl_to = ''''\<rparr> MAINNET])"
    using t[where sdk = "exampleSdk exampleCredentials" and w = "[]",
            THEN conjunct2, THEN conjunct2, THEN conjunct2, THEN spec, THEN mp, OF l]
    by (simp add: defaults_def exampleSdk_def)
  show ?thesis
    by (intro conjI h l a b c)
qed

subsection \<open>The asset list selector\<close>

text \<open>
  C9. For an item of operation \<^verbatim>\<open>getAssetList\<close> with the empty selector, the
  coercion does not fail, the call is the asset-list call without a list, and the
  outcome of the item is the outcome of that call. With a non-empty selector the call
  carries the member of that name of the asset-list enum.
\<close>

theorem asset_list_selector:
  assumes "operation p = ''getAssetList''"
  shows "(assetListName p = '''' \<longrightarrow>
            request E p j = Inr (GetAssetList None) \<and>
            tryItem E sdk p j w =
              (case sdk (GetAssetList None) w of
                 (Inl m, w') \<Rightarrow> (Inl (SdkError m), w')
               | (Inr result, w') \<Rightarrow> (Inr result, w'))) \<and>
         (assetListName p \<noteq> '''' \<longrightarrow>
            request E p j = Inr (GetAssetList (SupportedAssetLists E (assetListName p))))"
  using assms by (simp add: tryItem_def request_getAssetList)

theorem asset_list_selector_witness:
  "operation (defaults\<lparr>operation := ''getAssetList''\<rparr>) = ''getAssetList'' \<and>
   assetListName (defaults\<lparr>operation := ''getAssetList''\<rparr>) = '''' \<and>
   request exampleLibraries (defaults\<lparr>operation := ''getAssetList''\<rparr>) 0 = Inr (GetAssetList None) \<and>
   tryItem exampleLibraries (exampleSdk exampleCredentials) (defaults\<lparr>operation := ''getAssetList''\<rparr>)
     0 [] = (Inr (JStr ''ok''), [GetAssetList None]) \<and>
   assetListName (defaults\<lparr>operation := ''getAssetList'', assetListName := ''LOBSTR''\<rparr>) \<noteq> '''' \<and>
   request exampleLibraries (defaults\<lparr>operation := ''getAssetList'', assetListName := ''LOBSTR''\<rparr>) 0
     = Inr (GetAssetList (Some (Member (JStr ''lobstr-list''))))"
proof -
  let ?all = "defaults\<lparr>operation := ''getAssetList''\<rparr>"
  let ?one = "defaults\<lparr>operation := ''getAssetList'', assetListName := ''LOBSTR''\<rparr>"
  have h1: "operation ?all = ''getAssetList''" by simp
  have e1: "assetListName ?all = ''''" by (simp add: defaults_def)
  have h2: "operation ?one = ''getAssetList''" by simp
  have e2: "assetListName ?one \<noteq> ''''" by simp
  note t1 = asset_list_selector[where p = ?all and E = exampleLibraries and j = 0
              and sdk = "exampleSdk exampleCredentials" and w = "[]", OF h1,
              THEN conjunct1, THEN mp, OF e1]
  have a: "request exampleLibraries ?all 0 = Inr (GetAssetList None)"
    by (rule t1[THEN conjunct1])
  have b: "tryItem exampleLibraries (exampleSdk exampleCredentials) ?all 0 []
             = (Inr (JStr ''ok''), [GetAssetList None])"
    using t1[THEN conjunct2] by (simp add: exampleSdk_def)
  have c: "request exampleLibraries ?one 0 = Inr (GetAssetList (Some (Member (JStr ''lobstr-list''))))"
    using asset_list_selector[where p = ?one and E = exampleLibraries and j = 0, OF h2,
            THEN conjunct2, THEN mp, OF e2]
    by (simp add: exampleLibraries_def)
  show ?thesis
    by (intro conjI h1 e1 a b e2 c)
qed

subsection \<open>Empty integer parameters\<close>

text \<open>
  C10. \<^verbatim>\<open>BigInt\<close> of the empty string is 0, not an error: an item whose
  \<^verbatim>\<open>amount\<close>, \<^verbatim>\<open>amountA\<close>, \<^verbatim>\<open>amountB\<close> or \<^verbatim>\<open>liquidity\<close> is left at its
  empty default makes its remote call with the integer 0 in that place.
\<close>

theorem empty_integer:
  "BigInt '''' = Inr 0 \<and>
   (operation p = ''quote'' \<and> amount p = '''' \<longrightarrow>
      request E p j =
        Inr (Quote \<lparr>q_assetIn = assetIn p, q_assetOut = assetOut p, q_amount = 0,
                    q_tradeType = tradeTypeOf p,
                    q_protocols = map (SupportedProtocols E) (protocols p)\<rparr> (networkOf p))) \<and>
   (operation p = ''addLiquidity'' \<and> amountA p = '''' \<and> BigInt (amountB p) = Inr b \<longrightarrow>
      request E p j =
        Inr (AddLiquidity \<lparr>al_assetA = assetA p, al_assetB = assetB p, al_amountA = 0,
                           al_amountB = b, al_to = to_address p\<rparr> (networkOf p))) \<and>
   (operation p = ''addLiquidity'' \<and> BigInt (amountA p) = Inr a \<and> amountB p = '''' \<longrightarrow>
      request E p j =
        Inr (AddLiquidity \<lparr>al_assetA = assetA p, al_assetB = assetB p, al_amountA = a,
                           al_amountB = 0, al_to = to_address p\<rparr> (networkOf p))) \<and>
   (operation p = ''removeLiquidity'' \<and> liquidity p = '''' \<longrightarrow>
      request E p j =
        Inr (RemoveLiquidity \<lparr>rl_assetA = assetA p, rl_assetB = assetB p, rl_liquidity = 0,
                              rl_amountA = 0, rl_amountB = 0, rl_to = to_address p\<rparr>
               (networkOf p)))"
  by (simp add: request_quote request_addLiquidity request_removeLiquidity BigInt_empty)

theorem empty_integer_witness:
  "operation (defaults\<lparr>operation := ''quote''\<rparr>) = ''quote'' \<and>
   amount (defaults\<lparr>operation := ''quote''\<rparr>) = '''' \<and>
   request exampleLibraries (defaults\<lparr>operation := ''quote''\<rparr>) 0 =
     Inr (Quote \<lparr>q_assetIn = '''', q_assetOut = '''', q_amount = 0, q_tradeType = EXACT_IN,
                 q_protocols = [Some (Member (JStr ''soroswap''))]\<rparr> MAINNET) \<and>
   request exampleLibraries (defaults\<lparr>operation := ''addLiquidity''\<rparr>) 0 =
     Inr (AddLiquidity \<lparr>al_assetA = '''', al_assetB = '''', al_amountA = 0, al_amountB = 0,
                        al_to = ''''\<rparr> MAINNET) \<and>
   request exampleLibraries (defaults\<lparr>operation := ''removeLiquidity''\<rparr>) 0 =
     Inr (RemoveLiquidity \<lparr>rl_assetA = '''', rl_assetB = '''', rl_liquidity = 0,
                           rl_amountA = 0, rl_amountB = 0, rl_to = ''''\<rparr> MAINNET) \<and>
   execute exampleLibraries exampleSdk (hostOf [defaults\<lparr>operation := ''quote''\<rparr>] False) [] =
     (Inr [[\<lparr>json = JStr ''ok'', error = None, pairedItem = 0\<rparr>]],
      [Quote \<lparr>q_assetIn = '''', q_assetOut = '''', q_amount = 0, q_tradeType = EXACT_IN,
              q_protocols = [Some (Member (JStr ''soroswap''))]\<rparr> MAINNET])"
proof -
  note c2 = conjunct2
  let ?q = "defaults\<lparr>operation := ''quote''\<rparr>"
  let ?a = "defaults\<lparr>operation := ''addLiquidity''\<rparr>"
  let ?r = "defaults\<lparr>operation := ''removeLiquidity''\<rparr>"
  have zero: "BigInt '''' = Inr 0" by (rule empty_integer[THEN conjunct1])
  have hq1: "operation ?q = ''quote''" by simp
  have hq2: "amount ?q = ''''" by (simp add: defaults_def)
  have hq: "operation ?q = ''quote'' \<and> amount ?q = ''''" using hq1 hq2 by simp
  have ha: "operation ?a = ''addLiquidity'' \<and> amountA ?a = '''' \<and> BigInt (amountB ?a) = Inr 0"
    using zero by (simp add: defaults_def)
  have hr: "operation ?r = ''removeLiquidity'' \<and> liquidity ?r = ''''"
    by (simp add: defaults_def)
  have a: "request exampleLibraries ?q 0 =
     Inr (Quote \<lparr>q_assetIn = '''', q_assetOut = '''', q_amount = 0, q_tradeType = EXACT_IN,
                 q_protocols = [Some (Member (JStr ''soroswap''))]\<rparr> MAINNET)"
    using empty_integer[where p = ?q and E = exampleLibraries and j = 0,
            THEN c2, THEN conjunct1, THEN mp, OF hq]
    by (simp add: defaults_def exampleLibraries_def)
  have b: "request exampleLibraries ?a 0 =
     Inr (AddLiquidity \<lparr>al_assetA = '''', al_assetB = '''', al_amountA = 0, al_amountB = 0,
                        al_to = ''''\<rparr> MAINNET)"
    using empty_integer[where p = ?a and E = exampleLibraries and j = 0 and b = 0,
            THEN c2, THEN c2, THEN conjunct1, THEN mp, OF ha]
    by (simp add: defaults_def)
  have c: "request exampleLibraries ?r 0 =
     Inr (RemoveLiquidity \<lparr>rl_assetA = '''', rl_assetB = '''', rl_liquidity = 0,
                           rl_amountA = 0, rl_amountB = 0, rl_to = ''''\<rparr> MAINNET)"
    using empty_integer[where p = ?r and E = exampleLibraries and j = 0,
            THEN c2, THEN c2, THEN c2, THEN c2, THEN mp, OF hr]
    by (simp add: defaults_def)
  have d: "execute exampleLibraries exampleSdk (hostOf [?q] False) [] =
     (Inr [[\<lparr>json = JStr ''ok'', error = None, pairedItem = 0\<rparr>]],
      [Quote \<lparr>q_assetIn = '''', q_assetOut = '''', q_amount = 0, q_tradeType = EXACT_IN,
              q_protocols = [Some (Member (JStr ''soroswap''))]\<rparr> MAINNET])"
    using a by (simp add: execute_def hostOf_def tryItem_def exampleSdk_def)
  show ?thesis
    by (intro conjI hq1 hq2 a b c d)
qed

end
